theory Spec2Isabelle
  imports Main "HOL-Library.Sublist"
begin

section \<open>The WordPress GitHub release worker\<close>

text \<open>
  A shallow embedding of the Cloudflare worker \<^verbatim>\<open>src/index.js\<close> and of its
  earlier revisions. Three revisions of the script are present in the sources:
  \<^item> the current, path-based one with an optional version segment
    (\<^verbatim>\<open>src/index.js\<close>, lines 1 to 369): its functions keep their names;
  \<^item> the path-based one without versions (\<^verbatim>\<open>src/index.js\<close>, lines 371 to 659):
    its functions carry the suffix \<open>_v2\<close>;
  \<^item> the query-based one (\<^verbatim>\<open>src/unnamed/part_001\<close>): its functions carry the
    suffix \<open>_v1\<close>.
  Functions that are literally the same in the three revisions (\<open>getStatusText\<close>,
  \<open>getResponse\<close>, \<open>getErrorResponse\<close>, \<open>gitHubRequest\<close>, \<open>getFileHeaders\<close>) are
  embedded once.

  JavaScript strings are modelled as \<open>string\<close>, so a character stands for one
  code unit below 256.
\<close>

subsection \<open>Strings\<close>

text \<open>
  \<^verbatim>\<open>String.prototype.split(sep)\<close> for a one-character separator: the pieces between
  the separators, empty pieces included; a string without separator is its only piece.
\<close>

fun split :: "char \<Rightarrow> string \<Rightarrow> string list" where
  "split sep [] = [[]]"
| "split sep (c # cs) =
     (if c = sep then [] # split sep cs
      else (case split sep cs of
              [] \<Rightarrow> [[c]]
            | w # ws \<Rightarrow> (c # w) # ws))"

text \<open>
  \<^verbatim>\<open>String.prototype.lastIndexOf(c)\<close>: the index of the last occurrence, or \<open>-1\<close>.
\<close>

definition lastIndexOf :: "char \<Rightarrow> string \<Rightarrow> int" where
  "lastIndexOf c s =
     (if c \<in> set s
      then int (length s) - 1 - int (length (takeWhile (\<lambda>x. x \<noteq> c) (rev s)))
      else - 1)"

text \<open>\<^verbatim>\<open>String.prototype.substring(start)\<close>; a negative start counts as 0.\<close>

definition substring :: "string \<Rightarrow> int \<Rightarrow> string" where
  "substring s start = drop (nat start) s"

text \<open>
  The line terminators and the white space of the language, among the code units
  below 256: LF, CR; TAB, VT, FF, SP, NBSP.
\<close>

definition lineTerminator :: "char \<Rightarrow> bool" where
  "lineTerminator c = (c = CHR 0x0A \<or> c = CHR 0x0D)"

definition whiteSpace :: "char \<Rightarrow> bool" where
  "whiteSpace c =
     (c = CHR 0x09 \<or> c = CHR 0x0B \<or> c = CHR 0x0C \<or> c = CHR 0x20 \<or> c = CHR 0xA0
      \<or> lineTerminator c)"

text \<open>\<^verbatim>\<open>String.prototype.trim()\<close>.\<close>

definition trim :: "string \<Rightarrow> string" where
  "trim s = rev (dropWhile whiteSpace (rev (dropWhile whiteSpace s)))"

subsection \<open>File headers\<close>

text \<open>The fixed list of header names of \<^verbatim>\<open>getFileHeaders\<close>.\<close>

definition headers :: "string list" where
  "headers =
     [''Author'', ''Author URI'', ''Description'', ''Domain Path'', ''License'',
      ''License URI'', ''Plugin Name'', ''Plugin URI'', ''Requires at least'',
      ''Requires PHP'', ''Tested up to'', ''Text Domain'', ''Theme Name'', ''Theme URI'',
      ''Version'']"

text \<open>
  \<^verbatim>\<open>new RegExp(header + ':(.*)', 'gm').exec(fileContents)\<close>, reduced to its first
  capture group. The header names hold letters and spaces only, so \<open>pat\<close>, the
  header name followed by a colon, matches literally; the regular expression is
  fresh, so the search starts at index 0 and finds the leftmost occurrence of \<open>pat\<close>;
  \<^verbatim>\<open>(.*)\<close> then takes every character up to the next line terminator. \<open>None\<close> is the
  \<^verbatim>\<open>null\<close> of a failed search.
\<close>

fun exec :: "string \<Rightarrow> string \<Rightarrow> string option" where
  "exec pat [] = (if pat = [] then Some [] else None)"
| "exec pat (c # cs) =
     (if prefix pat (c # cs)
      then Some (takeWhile (\<lambda>x. \<not> lineTerminator x) (drop (length pat) (c # cs)))
      else exec pat cs)"

text \<open>
  \<^verbatim>\<open>getFileHeaders\<close>: the object \<^verbatim>\<open>fileHeaders\<close> is a map from header names to
  values, filled by the \<^verbatim>\<open>forEach\<close> over the header names; a header whose search
  fails leaves the map as it is.
\<close>

definition getFileHeaders :: "string \<Rightarrow> (string \<rightharpoonup> string)" where
  "getFileHeaders fileContents =
     foldl (\<lambda>fileHeaders header.
              (case exec (header @ '':'') fileContents of
                 None \<Rightarrow> fileHeaders
               | Some m \<Rightarrow> fileHeaders(header \<mapsto> trim m)))
       Map.empty headers"

subsection \<open>Values\<close>

text \<open>
  A value that may be \<^verbatim>\<open>undefined\<close> or \<^verbatim>\<open>null\<close>: what \<^verbatim>\<open>Array.prototype.shift\<close>,
  \<^verbatim>\<open>URLSearchParams.get\<close> and a destructuring pattern deliver.
\<close>

datatype 'a nullable = Undefined | Null | Defined 'a

text \<open>Truthiness of a string that may be absent: the empty string is falsy.\<close>

fun truthyS :: "string nullable \<Rightarrow> bool" where
  "truthyS (Defined s) = (s \<noteq> [])"
| "truthyS _ = False"

text \<open>The operator \<^verbatim>\<open>a || b\<close>.\<close>

definition orElse :: "string nullable \<Rightarrow> string nullable \<Rightarrow> string nullable" where
  "orElse a b = (if truthyS a then a else b)"

text \<open>A value inside a template literal, \<^verbatim>\<open>`${ v }`\<close>.\<close>

fun tmpl :: "string nullable \<Rightarrow> string" where
  "tmpl Undefined = ''undefined''"
| "tmpl Null = ''null''"
| "tmpl (Defined s) = s"

text \<open>
  The values that \<^verbatim>\<open>response.json()\<close> delivers and that \<^verbatim>\<open>JSON.stringify\<close> reads,
  with \<^verbatim>\<open>undefined\<close> for the properties that are absent. Numbers are integers here:
  the worker reads no number but a length. An object is the list of its
  properties, in order.
\<close>

datatype jsval =
    JUndefined
  | JNull
  | JBool bool
  | JNum int
  | JString string
  | JArray "jsval list"
  | JObject "(string \<times> jsval) list"

text \<open>
  What the worker throws and catches: a thrown value (\<^verbatim>\<open>throw releases\<close>,
  \<^verbatim>\<open>throw 'No releases available!'\<close>) or an \<^verbatim>\<open>Error\<close> object raised by the
  language (a \<^verbatim>\<open>TypeError\<close> on a property of \<^verbatim>\<open>undefined\<close>, a \<^verbatim>\<open>SyntaxError\<close> of
  \<^verbatim>\<open>response.json()\<close>). The wording of an engine's message is not modelled: an
  \<^verbatim>\<open>Error\<close> carries the name of its class as its message.
\<close>

datatype thrown = ThrowValue jsval | ThrowError string

definition thenE :: "thrown + 'a \<Rightarrow> ('a \<Rightarrow> thrown + 'b) \<Rightarrow> thrown + 'b" where
  "thenE m f = (case m of Inl e \<Rightarrow> Inl e | Inr v \<Rightarrow> f v)"

fun truthy :: "jsval \<Rightarrow> bool" where
  "truthy JUndefined = False"
| "truthy JNull = False"
| "truthy (JBool b) = b"
| "truthy (JNum n) = (n \<noteq> 0)"
| "truthy (JString s) = (s \<noteq> [])"
| "truthy (JArray xs) = True"
| "truthy (JObject ps) = True"

text \<open>
  Property access \<^verbatim>\<open>v.k\<close> for the property names the worker reads (\<^verbatim>\<open>assets\<close>,
  \<^verbatim>\<open>length\<close>, \<^verbatim>\<open>tag_name\<close>, \<^verbatim>\<open>published_at\<close>, \<^verbatim>\<open>browser_download_url\<close>,
  \<^verbatim>\<open>message\<close>): a \<^verbatim>\<open>TypeError\<close> on \<^verbatim>\<open>undefined\<close> and \<^verbatim>\<open>null\<close>, the length of a
  string or an array, the property of an object, \<^verbatim>\<open>undefined\<close> otherwise.
\<close>

fun getProp :: "jsval \<Rightarrow> string \<Rightarrow> thrown + jsval" where
  "getProp JUndefined k = Inl (ThrowError ''TypeError'')"
| "getProp JNull k = Inl (ThrowError ''TypeError'')"
| "getProp (JString s) k = Inr (if k = ''length'' then JNum (int (length s)) else JUndefined)"
| "getProp (JArray xs) k = Inr (if k = ''length'' then JNum (int (length xs)) else JUndefined)"
| "getProp (JObject ps) k = Inr (case map_of ps k of None \<Rightarrow> JUndefined | Some v \<Rightarrow> v)"
| "getProp v k = Inr JUndefined"

text \<open>Optional chaining, \<^verbatim>\<open>v?.k\<close>.\<close>

fun getPropOpt :: "jsval \<Rightarrow> string \<Rightarrow> jsval" where
  "getPropOpt v k = (case getProp v k of Inl e \<Rightarrow> JUndefined | Inr w \<Rightarrow> w)"

text \<open>Element access \<^verbatim>\<open>v[0]\<close>.\<close>

fun getFirst :: "jsval \<Rightarrow> thrown + jsval" where
  "getFirst JUndefined = Inl (ThrowError ''TypeError'')"
| "getFirst JNull = Inl (ThrowError ''TypeError'')"
| "getFirst (JString s) = Inr (case s of [] \<Rightarrow> JUndefined | c # cs \<Rightarrow> JString [c])"
| "getFirst (JArray xs) = Inr (case xs of [] \<Rightarrow> JUndefined | x # ys \<Rightarrow> x)"
| "getFirst (JObject ps) = Inr (case map_of ps ''0'' of None \<Rightarrow> JUndefined | Some v \<Rightarrow> v)"
| "getFirst v = Inr JUndefined"

text \<open>The operator \<^verbatim>\<open>v || ''\<close>.\<close>

definition orEmpty :: "jsval \<Rightarrow> jsval" where
  "orEmpty v = (if truthy v then v else JString [])"

text \<open>A header of the map as a value: \<^verbatim>\<open>data.fileHeaders['Version']\<close>.\<close>

definition header :: "(string \<rightharpoonup> string) \<Rightarrow> string \<Rightarrow> jsval" where
  "header fileHeaders k = (case fileHeaders k of None \<Rightarrow> JUndefined | Some s \<Rightarrow> JString s)"

definition fromNullable :: "string nullable \<Rightarrow> jsval" where
  "fromNullable v = (case v of Undefined \<Rightarrow> JUndefined | Null \<Rightarrow> JNull | Defined s \<Rightarrow> JString s)"

text \<open>
  \<^verbatim>\<open>JSON.stringify(payload, null, 2)\<close>, up to the layout of the text: the value that
  the text denotes. A property whose value is \<^verbatim>\<open>undefined\<close> is left out of its
  object, an \<^verbatim>\<open>undefined\<close> element of an array is written \<^verbatim>\<open>null\<close>.
\<close>

fun stringify :: "jsval \<Rightarrow> jsval" where
  "stringify (JArray xs) =
     JArray (map (\<lambda>x. if x = JUndefined then JNull else stringify x) xs)"
| "stringify (JObject ps) =
     JObject (map (\<lambda>(k, v). (k, stringify v)) (filter (\<lambda>(k, v). v \<noteq> JUndefined) ps))"
| "stringify v = v"

text \<open>
  A value inside a template literal: a string as it is, the other values as
  \<^verbatim>\<open>String(v)\<close> writes them (an array joins its elements with commas, \<^verbatim>\<open>null\<close> and
  \<^verbatim>\<open>undefined\<close> elements being empty). A number is an integer written with all its
  digits: the exponent notation of the numbers from ten to the power 21 on is not
  modelled.
\<close>

fun digits :: "nat \<Rightarrow> string" where
  "digits n = (if n < 10 then [char_of (48 + n)] else digits (n div 10) @ [char_of (48 + n mod 10)])"

fun joinWith :: "string \<Rightarrow> string list \<Rightarrow> string" where
  "joinWith sep [] = []"
| "joinWith sep [x] = x"
| "joinWith sep (x # y # ys) = x @ sep @ joinWith sep (y # ys)"

fun tmplJ :: "jsval \<Rightarrow> string" where
  "tmplJ JUndefined = ''undefined''"
| "tmplJ JNull = ''null''"
| "tmplJ (JBool b) = (if b then ''true'' else ''false'')"
| "tmplJ (JNum n) = (if n < 0 then ''-'' @ digits (nat (- n)) else digits (nat n))"
| "tmplJ (JString s) = s"
| "tmplJ (JArray xs) =
     joinWith '','' (map (\<lambda>x. if x = JUndefined \<or> x = JNull then [] else tmplJ x) xs)"
| "tmplJ (JObject ps) = ''[object Object]''"

subsection \<open>Requests, responses and the outside world\<close>

text \<open>
  The incoming request, as \<^verbatim>\<open>new URL(request.url)\<close> shows it: the whole URL
  (\<^verbatim>\<open>url.toString()\<close>, the cache key), its path and its query parameters in order.
\<close>

record request =
  url :: string
  pathname :: string
  searchParams :: "(string \<times> string) list"

text \<open>\<^verbatim>\<open>url.searchParams.get(k)\<close>: the first value of the parameter, or \<^verbatim>\<open>null\<close>.\<close>

definition searchGet :: "request \<Rightarrow> string \<Rightarrow> string nullable" where
  "searchGet r k = (case map_of (searchParams r) k of None \<Rightarrow> Null | Some v \<Rightarrow> Defined v)"

text \<open>\<^verbatim>\<open>url.searchParams.has(k)\<close>.\<close>

definition searchHas :: "request \<Rightarrow> string \<Rightarrow> bool" where
  "searchHas r k = (map_of (searchParams r) k \<noteq> None)"

text \<open>
  A response received from GitHub: its status, its text (\<^verbatim>\<open>response.text()\<close>) and
  the value its text denotes (\<^verbatim>\<open>response.json()\<close>), \<open>None\<close> when the text is no JSON
  text, where \<^verbatim>\<open>response.json()\<close> raises a \<^verbatim>\<open>SyntaxError\<close>.
\<close>

record fetched =
  fetchedStatus :: nat
  fetchedText :: string
  fetchedJson :: "jsval option"

definition json :: "fetched \<Rightarrow> thrown + jsval" where
  "json r = (case fetchedJson r of None \<Rightarrow> Inl (ThrowError ''SyntaxError'') | Some v \<Rightarrow> Inr v)"

text \<open>
  The body of a response of the worker: the JSON text of a value, the stack trace
  of what was caught, or nothing. The header fields of a response are those the
  worker sets; what the platform adds by itself, such as the content type of a
  text body, is not modelled.
\<close>

datatype body = JsonText jsval | Stack thrown | NoBody

record response =
  status :: nat
  statusText :: string
  headerFields :: "(string \<times> string) list"
  body :: body

text \<open>
  \<^verbatim>\<open>gitHubRequest\<close>: the world outside is the function \<open>fetch\<close> from URLs to
  responses; the method and the three request headers are the same in every call.
  Every call is answered: a transport that fails is not modelled.
\<close>

definition gitHubRequest :: "(string \<Rightarrow> fetched) \<Rightarrow> string \<Rightarrow> fetched" where
  "gitHubRequest fetch u = fetch u"

definition getStatusText :: "nat \<Rightarrow> string" where
  "getStatusText code =
     (if code = 400 then ''Bad Request''
      else if code = 404 then ''Not Found''
      else ''OK'')"

text \<open>
  \<^verbatim>\<open>getResponse\<close>. The range check of the \<^verbatim>\<open>Response\<close> constructor on the status
  is not modelled: the worker passes 200, 400, 404 or a status it received.
\<close>

definition getResponse :: "jsval \<Rightarrow> nat \<Rightarrow> response" where
  "getResponse payload st =
     \<lparr> status = st,
       statusText = getStatusText st,
       headerFields = [(''Content-Type'', ''application/json'')],
       body = JsonText (stringify payload) \<rparr>"

text \<open>\<^verbatim>\<open>getErrorResponse\<close>; the default status 400 is written at the calls.\<close>

definition getErrorResponse :: "jsval \<Rightarrow> nat \<Rightarrow> response" where
  "getErrorResponse message statusCode =
     getResponse (JObject [(''status'', JString ''error''), (''message'', message)]) statusCode"

text \<open>
  \<^verbatim>\<open>Response.redirect(url, 301)\<close>. The URL parser of the platform is not modelled:
  a string counts as a valid URL, any other value as an invalid one, on which the
  call raises a \<^verbatim>\<open>TypeError\<close>.
\<close>

definition redirect :: "jsval \<Rightarrow> nat \<Rightarrow> thrown + response" where
  "redirect target st =
     (case target of
        JString u \<Rightarrow>
          Inr \<lparr> status = st, statusText = [], headerFields = [(''Location'', u)], body = NoBody \<rparr>
      | _ \<Rightarrow> Inl (ThrowError ''TypeError''))"

text \<open>\<^verbatim>\<open>e.message\<close> in a \<^verbatim>\<open>catch\<close> clause.\<close>

fun messageOf :: "thrown \<Rightarrow> thrown + jsval" where
  "messageOf (ThrowError m) = Inr (JString m)"
| "messageOf (ThrowValue v) = getProp v ''message''"

text \<open>
  The object \<^verbatim>\<open>data\<close> of a request. The three revisions fill different
  properties; a property that a revision never sets is \<open>Undefined\<close>, \<open>JUndefined\<close>,
  \<open>False\<close> or the empty map here, and that revision never reads it.
\<close>

record data =
  basename :: string
  "file" :: string
  isDownload :: bool
  package :: "string nullable"
  slug :: "string nullable"
  type :: "string nullable"
  vendor :: "string nullable"
  version :: "string nullable"
  isTheme :: bool
  isPlugin :: bool
  latestRelease :: jsval
  release :: jsval
  fileHeaders :: "string \<rightharpoonup> string"

text \<open>\<^verbatim>\<open>Array.prototype.shift\<close>: the first element and the rest.\<close>

fun shift :: "string list \<Rightarrow> string nullable \<times> string list" where
  "shift [] = (Undefined, [])"
| "shift (x # xs) = (Defined x, xs)"

text \<open>Element access \<^verbatim>\<open>xs[i]\<close> on an array of strings.\<close>

definition at :: "string list \<Rightarrow> nat \<Rightarrow> string nullable" where
  "at xs i = (if i < length xs then Defined (xs ! i) else Undefined)"

subsection \<open>The current revision: path segments with an optional version\<close>

text \<open>\<^verbatim>\<open>getDataFromRequest\<close> (\<^verbatim>\<open>src/index.js\<close>, lines 87 to 139).\<close>

definition getDataFromRequest :: "request \<Rightarrow> data" where
  "getDataFromRequest request =
     (let segments = filter (\<lambda>value. value \<noteq> []) (split CHR ''/'' (pathname request));
          (type0, segments) = shift segments;
          type1 = (if truthyS type0 \<and> (type0 = Defined ''plugin'' \<or> type0 = Defined ''plugins'')
                   then Defined ''plugin'' else type0);
          type2 = (if truthyS type1 \<and> (type1 = Defined ''theme'' \<or> type1 = Defined ''themes'')
                   then Defined ''theme'' else type1);
          (vendor0, segments) = shift segments;
          (package0, segments) = shift segments;
          isDownload0 = (''download'' \<in> set segments);
          segments = (if isDownload0 then butlast segments else segments);
          (version0, segments) = shift segments;
          slug0 = orElse (searchGet request ''slug'') package0;
          file0 = (if truthyS (searchGet request ''file'') then tmpl (searchGet request ''file'')
                   else if type2 = Defined ''theme'' then ''style.css''
                   else tmpl package0 @ ''.php'');
          basename0 = tmpl slug0 @ ''/'' @ file0
      in \<lparr> basename = basename0, file = file0, isDownload = isDownload0, package = package0,
           slug = slug0, type = type2, vendor = vendor0, version = version0,
           isTheme = False, isPlugin = False, latestRelease = JUndefined,
           release = JUndefined, fileHeaders = Map.empty \<rparr>)"

text \<open>
  \<^verbatim>\<open>getPayload\<close> (lines 147 to 179). The three property reads that can raise
  are made in the order of the object literal.
\<close>

definition getPayload :: "data \<Rightarrow> thrown + jsval" where
  "getPayload d =
     thenE (getProp (latestRelease d) ''tag_name'') (\<lambda>latest.
     thenE (getProp (release d) ''published_at'') (\<lambda>published.
     thenE (thenE (thenE (getProp (release d) ''assets'') getFirst)
              (\<lambda>asset. getProp asset ''browser_download_url'')) (\<lambda>download.
     Inr (JObject
       ([(''name'', if type d = Defined ''theme'' then header (fileHeaders d) ''Theme Name''
                    else header (fileHeaders d) ''Plugin Name''),
         (''type'', fromNullable (type d)),
         (''version'', JObject [(''current'', header (fileHeaders d) ''Version''),
                                (''latest'', latest)]),
         (''description'', orEmpty (header (fileHeaders d) ''Description'')),
         (''author'', JObject [(''name'', orEmpty (header (fileHeaders d) ''Author'')),
                               (''url'', orEmpty (header (fileHeaders d) ''Author URI''))]),
         (''updated'', orEmpty published),
         (''requires'', JObject [(''wp'', orEmpty (header (fileHeaders d) ''Requires at least'')),
                                 (''php'', orEmpty (header (fileHeaders d) ''Requires PHP''))]),
         (''tested'', JObject [(''wp'', orEmpty (header (fileHeaders d) ''Tested up to''))]),
         (''url'', orEmpty (if type d = Defined ''theme'' then header (fileHeaders d) ''Theme URI''
                            else header (fileHeaders d) ''Plugin URI'')),
         (''download'', download),
         (''slug'', fromNullable (slug d))]
        @ (if type d = Defined ''plugin'' then [(''basename'', JString (basename d))] else []))))))"

text \<open>
  The loop of \<^verbatim>\<open>getLatestRelease\<close> (lines 207 to 211),
  \<^verbatim>\<open>for (release of releases) { if (release.assets.length) { break; } }\<close>:
  the first argument is the value of the variable \<^verbatim>\<open>release\<close> so far, the
  result is its value when the loop is left.
\<close>

fun scanReleases :: "jsval \<Rightarrow> jsval list \<Rightarrow> thrown + jsval" where
  "scanReleases release0 [] = Inr release0"
| "scanReleases release0 (r # rs) =
     thenE (thenE (getProp r ''assets'') (\<lambda>assets. getProp assets ''length'')) (\<lambda>n.
       if truthy n then Inr r else scanReleases r rs)"

fun isArray :: "jsval \<Rightarrow> bool" where
  "isArray (JArray xs) = True"
| "isArray v = False"

fun elements :: "jsval \<Rightarrow> jsval list" where
  "elements (JArray xs) = xs"
| "elements v = []"

text \<open>
  The test \<^verbatim>\<open>!releases || !Array.isArray(releases) || !releases.length\<close> of the
  three revisions.
\<close>

definition noReleases :: "jsval \<Rightarrow> bool" where
  "noReleases releases = (\<not> truthy releases \<or> \<not> isArray releases \<or> elements releases = [])"

text \<open>\<^verbatim>\<open>getLatestRelease\<close> (lines 188 to 218).\<close>

definition getLatestRelease :: "(string \<Rightarrow> fetched) \<Rightarrow> data \<Rightarrow> thrown + jsval" where
  "getLatestRelease fetch d =
     (let response = gitHubRequest fetch
            (''https://api.github.com/repos/'' @ tmpl (vendor d) @ ''/'' @ tmpl (package d)
               @ ''/releases'')
      in thenE (json response) (\<lambda>releases.
           if fetchedStatus response \<noteq> 200 then Inl (ThrowValue releases)
           else if noReleases releases
             then Inl (ThrowValue (JString ''No releases available!''))
           else thenE (scanReleases JUndefined (elements releases)) (\<lambda>release0.
             if \<not> truthy release0
             then Inl (ThrowValue (JString ''No releases have release assets!''))
             else Inr release0)))"

text \<open>\<^verbatim>\<open>getRelease\<close> (lines 227 to 248).\<close>

definition getRelease :: "(string \<Rightarrow> fetched) \<Rightarrow> data \<Rightarrow> thrown + jsval" where
  "getRelease fetch d =
     (let response = gitHubRequest fetch
            (''https://api.github.com/repos/'' @ tmpl (vendor d) @ ''/'' @ tmpl (package d)
               @ ''/releases/tags/'' @ tmpl (version d))
      in thenE (json response) (\<lambda>release0.
           if fetchedStatus response \<noteq> 200 then Inl (ThrowValue release0)
           else thenE (thenE (getProp release0 ''assets'') (\<lambda>assets. getProp assets ''length''))
             (\<lambda>n.
               if \<not> truthy n
               then Inl (ThrowValue (JString
                      (''Release '' @ tmpl (version d) @ '' doesn'' @ [CHR 0x27]
                         @ ''t have a release asset!'')))
               else Inr release0)))"

text \<open>
  The \<^verbatim>\<open>try\<close> block of \<^verbatim>\<open>handleRequest\<close> (lines 42 to 44): the data with its two
  releases, or what was thrown.
\<close>

definition resolveReleases :: "(string \<Rightarrow> fetched) \<Rightarrow> data \<Rightarrow> thrown + data" where
  "resolveReleases fetch d =
     thenE (getLatestRelease fetch d) (\<lambda>latest.
       let d1 = d\<lparr>latestRelease := latest\<rparr>
       in if truthyS (version d1)
          then thenE (getRelease fetch d1) (\<lambda>r. Inr (d1\<lparr>release := r\<rparr>))
          else Inr (d1\<lparr>release := latestRelease d1\<rparr>))"

text \<open>
  \<^verbatim>\<open>handleRequest\<close> (lines 8 to 79). \<open>cache\<close> is \<^verbatim>\<open>caches.default\<close>, read by the URL
  of the request. The result is the response together with the writes handed to
  \<^verbatim>\<open>event.waitUntil\<close>, each a \<^verbatim>\<open>cache.put\<close> of a response under a key; \<open>Inl\<close> is
  a rejected promise.
\<close>

definition handleRequest ::
  "(string \<rightharpoonup> response) \<Rightarrow> (string \<Rightarrow> fetched) \<Rightarrow> request
     \<Rightarrow> thrown + response \<times> (string \<times> response) list" where
  "handleRequest cache fetch request =
     (case cache (url request) of
        Some cached \<Rightarrow> Inr (cached, [])
      | None \<Rightarrow>
         (let d = getDataFromRequest request
          in if type d \<noteq> Defined ''theme'' \<and> type d \<noteq> Defined ''plugin''
             then Inr (getErrorResponse (JString
                    (''The first URL path segment is missing a valid entity type. Must be either ''
                       @ [CHR 0x27] @ ''plugins'' @ [CHR 0x27] @ '' or '' @ [CHR 0x27] @ ''themes''
                       @ [CHR 0x27] @ ''.'')) 400, [])
             else if \<not> truthyS (vendor d)
             then Inr (getErrorResponse (JString
                    ''The second URL path segment is missing. It should contain the vendor name.'')
                    400, [])
             else if \<not> truthyS (package d)
             then Inr (getErrorResponse (JString
                    ''The third URL path segment is missing. It should contain the package name.'')
                    400, [])
             else (case resolveReleases fetch d of
                Inl e \<Rightarrow> thenE (messageOf e) (\<lambda>m. Inr (getErrorResponse m 404, []))
              | Inr d2 \<Rightarrow>
                 thenE (getProp (release d2) ''tag_name'') (\<lambda>tag.
                   let filePath = ''https://raw.githubusercontent.com/'' @ tmpl (vendor d2) @ ''/''
                         @ tmpl (package d2) @ ''/'' @ tmplJ tag @ ''/'' @ file d2;
                       response = gitHubRequest fetch filePath
                   in if fetchedStatus response \<noteq> 200
                      then Inr (getResponse (JString
                             (''Unable to fetch '' @ tmpl (type d2) @ '' file: '' @ filePath)) 404, [])
                      else
                        (let d3 = d2\<lparr>fileHeaders := getFileHeaders (fetchedText response)\<rparr>
                         in thenE (getPayload d3) (\<lambda>payload.
                              if isDownload d3
                              then thenE (thenE (getProp payload ''download'')
                                            (\<lambda>target. redirect target 301))
                                     (\<lambda>r. Inr (r, []))
                              else
                                (let r = getResponse payload 200;
                                     r = r\<lparr>headerFields :=
                                            headerFields r @ [(''Cache-Control'', ''s=maxage=10'')]\<rparr>
                                 in Inr (r, [(url request, r)]))))))))"

text \<open>
  The listener of the \<^verbatim>\<open>fetch\<close> event (lines 360 to 369): a rejected
  \<^verbatim>\<open>handleRequest\<close> is answered with status 500 and the stack trace.
\<close>

definition fetchListener ::
  "(string \<rightharpoonup> response) \<Rightarrow> (string \<Rightarrow> fetched) \<Rightarrow> request
     \<Rightarrow> response \<times> (string \<times> response) list" where
  "fetchListener cache fetch request =
     (case handleRequest cache fetch request of
        Inl err \<Rightarrow> (\<lparr> status = 500, statusText = [], headerFields = [], body = Stack err \<rparr>, [])
      | Inr answer \<Rightarrow> answer)"

subsection \<open>The earlier revisions\<close>

text \<open>
  The loop of the two earlier \<^verbatim>\<open>handleRequest\<close> (\<^verbatim>\<open>src/index.js\<close>, lines 427 to
  432; \<^verbatim>\<open>src/unnamed/part_001\<close>, lines 53 to 58), which sets \<^verbatim>\<open>data.release\<close> only
  where it breaks: the result is \<^verbatim>\<open>data.release\<close> after the loop.
\<close>

fun findRelease :: "jsval list \<Rightarrow> thrown + jsval" where
  "findRelease [] = Inr JUndefined"
| "findRelease (r # rs) =
     thenE (thenE (getProp r ''assets'') (\<lambda>assets. getProp assets ''length'')) (\<lambda>n.
       if truthy n then Inr r else findRelease rs)"

text \<open>
  What the two earlier \<^verbatim>\<open>handleRequest\<close> do once the data of the request has passed
  their checks, up to the fetch of the file (\<^verbatim>\<open>src/index.js\<close>, lines 410 to 448;
  \<^verbatim>\<open>src/unnamed/part_001\<close>, lines 36 to 74): an early response, or the data with
  its release and file headers.
\<close>

definition resolveInline ::
  "(string \<Rightarrow> fetched) \<Rightarrow> data \<Rightarrow> thrown + (response + data)" where
  "resolveInline fetch d =
     (let response = gitHubRequest fetch
            (''https://api.github.com/repos/'' @ tmpl (vendor d) @ ''/'' @ tmpl (package d)
               @ ''/releases'')
      in thenE (json response) (\<lambda>releases.
           if fetchedStatus response \<noteq> 200
           then Inr (Inl (getResponse releases (fetchedStatus response)))
           else if noReleases releases
           then Inr (Inl (getResponse (JString ''No releases available!'') 404))
           else thenE (findRelease (elements releases)) (\<lambda>found.
             let d2 = d\<lparr>release := found\<rparr>
             in if \<not> truthy (getPropOpt (getPropOpt (release d2) ''assets'') ''length'')
                then Inr (Inl (getResponse (JString ''No release asset found!'') 404))
                else thenE (getProp (release d2) ''tag_name'') (\<lambda>tag.
                  let filePath = ''https://raw.githubusercontent.com/'' @ tmpl (vendor d2) @ ''/''
                        @ tmpl (package d2) @ ''/'' @ tmplJ tag @ ''/'' @ file d2;
                      response2 = gitHubRequest fetch filePath
                  in if fetchedStatus response2 \<noteq> 200
                     then Inr (Inl (getResponse (JString
                            (''Unable to fetch '' @ tmpl (type d2) @ '' file: '' @ filePath)) 404))
                     else Inr (Inr (d2\<lparr>fileHeaders :=
                                        getFileHeaders (fetchedText response2)\<rparr>))))))"

text \<open>\<^verbatim>\<open>getDataFromRequest\<close> of \<^verbatim>\<open>src/index.js\<close>, lines 477 to 501.\<close>

definition getDataFromRequest_v2 :: "request \<Rightarrow> data" where
  "getDataFromRequest_v2 request =
     (let segments = filter (\<lambda>value. value \<noteq> []) (split CHR ''/'' (pathname request));
          type0 = (if truthyS (at segments 0) then Defined (butlast (tmpl (at segments 0)))
                   else Null);
          vendor0 = (if truthyS (at segments 1) then at segments 1 else Null);
          package0 = (if truthyS (at segments 2) then at segments 2 else Null);
          isDownload0 = ((truthyS (at segments 3) \<and> Defined ''download'' = at segments 3)
                         \<or> searchHas request ''download'');
          slug0 = orElse (searchGet request ''slug'') package0;
          file0 = (if truthyS (searchGet request ''file'') then tmpl (searchGet request ''file'')
                   else if type0 = Defined ''theme'' then ''style.css''
                   else tmpl package0 @ ''.php'');
          basename0 = tmpl slug0 @ ''/'' @ file0
      in \<lparr> basename = basename0, file = file0, isDownload = isDownload0, package = package0,
           slug = slug0, type = type0, vendor = vendor0, version = Undefined,
           isTheme = False, isPlugin = False, latestRelease = JUndefined,
           release = JUndefined, fileHeaders = Map.empty \<rparr>)"

text \<open>\<^verbatim>\<open>getPayload\<close> of \<^verbatim>\<open>src/index.js\<close>, lines 509 to 538.\<close>

definition getPayload_v2 :: "data \<Rightarrow> thrown + jsval" where
  "getPayload_v2 d =
     thenE (getProp (release d) ''published_at'') (\<lambda>published.
     thenE (thenE (thenE (getProp (release d) ''assets'') getFirst)
              (\<lambda>asset. getProp asset ''browser_download_url'')) (\<lambda>download.
     Inr (JObject
       ([(''name'', if type d = Defined ''theme'' then header (fileHeaders d) ''Theme Name''
                    else header (fileHeaders d) ''Plugin Name''),
         (''type'', fromNullable (type d)),
         (''version'', orEmpty (header (fileHeaders d) ''Version'')),
         (''description'', orEmpty (header (fileHeaders d) ''Description'')),
         (''author'', JObject [(''name'', orEmpty (header (fileHeaders d) ''Author'')),
                               (''url'', orEmpty (header (fileHeaders d) ''Author URI''))]),
         (''updated'', orEmpty published),
         (''requires'', JObject [(''wp'', orEmpty (header (fileHeaders d) ''Requires at least'')),
                                 (''php'', orEmpty (header (fileHeaders d) ''Requires PHP''))]),
         (''tested'', JObject [(''wp'', orEmpty (header (fileHeaders d) ''Tested up to''))]),
         (''url'', orEmpty (if type d = Defined ''theme'' then header (fileHeaders d) ''Theme URI''
                            else header (fileHeaders d) ''Plugin URI'')),
         (''download'', download),
         (''slug'', fromNullable (slug d))]
        @ (if type d = Defined ''plugin'' then [(''basename'', JString (basename d))] else [])))))"

text \<open>\<^verbatim>\<open>handleRequest\<close> of \<^verbatim>\<open>src/index.js\<close>, lines 378 to 469.\<close>

definition handleRequest_v2 ::
  "(string \<rightharpoonup> response) \<Rightarrow> (string \<Rightarrow> fetched) \<Rightarrow> request
     \<Rightarrow> thrown + response \<times> (string \<times> response) list" where
  "handleRequest_v2 cache fetch request =
     (case cache (url request) of
        Some cached \<Rightarrow> Inr (cached, [])
      | None \<Rightarrow>
         (let d = getDataFromRequest_v2 request
          in if type d \<noteq> Defined ''theme'' \<and> type d \<noteq> Defined ''plugin''
             then Inr (getErrorResponse (JString
                    (''The first URL path segment is missing a valid entity type. Must be either ''
                       @ [CHR 0x27] @ ''plugins'' @ [CHR 0x27] @ '' or '' @ [CHR 0x27] @ ''themes''
                       @ [CHR 0x27] @ ''.'')) 400, [])
             else if \<not> truthyS (vendor d)
             then Inr (getErrorResponse (JString
                    ''The second URL path segment is missing. It should contain the vendor name.'')
                    400, [])
             else if \<not> truthyS (package d)
             then Inr (getErrorResponse (JString
                    ''The third URL path segment is missing. It should contain the package name.'')
                    400, [])
             else thenE (resolveInline fetch d) (\<lambda>resolved.
               case resolved of
                 Inl early \<Rightarrow> Inr (early, [])
               | Inr d3 \<Rightarrow>
                  thenE (getPayload_v2 d3) (\<lambda>payload.
                    if isDownload d3
                    then thenE (thenE (getProp payload ''download'') (\<lambda>target. redirect target 301))
                           (\<lambda>r. Inr (r, []))
                    else
                      (let r = getResponse payload 200;
                           r = r\<lparr>headerFields :=
                                  headerFields r @ [(''Cache-Control'', ''s=maxage=10'')]\<rparr>
                       in Inr (r, [(url request, r)]))))))"

definition fetchListener_v2 ::
  "(string \<rightharpoonup> response) \<Rightarrow> (string \<Rightarrow> fetched) \<Rightarrow> request
     \<Rightarrow> response \<times> (string \<times> response) list" where
  "fetchListener_v2 cache fetch request =
     (case handleRequest_v2 cache fetch request of
        Inl err \<Rightarrow> (\<lparr> status = 500, statusText = [], headerFields = [], body = Stack err \<rparr>, [])
      | Inr answer \<Rightarrow> answer)"

text \<open>
  \<^verbatim>\<open>getDataFromRequest\<close> of \<^verbatim>\<open>src/unnamed/part_001\<close>, lines 95 to 117. The
  destructuring \<^verbatim>\<open>[slug, file]\<close> takes the first two pieces of the basename; where
  there is no second piece, \<^verbatim>\<open>data.file.substring\<close> raises a \<^verbatim>\<open>TypeError\<close>.
\<close>

definition getDataFromRequest_v1 :: "request \<Rightarrow> thrown + data" where
  "getDataFromRequest_v1 request =
     (let vendor0 = searchGet request ''vendor'';
          package0 = searchGet request ''package'';
          basename0 = (if truthyS (searchGet request ''basename'')
                       then tmpl (searchGet request ''basename'')
                       else tmpl package0 @ ''/'' @ tmpl package0 @ ''.php'');
          pieces = split CHR ''/'' basename0;
          slug0 = at pieces 0;
          file0 = at pieces 1
      in case file0 of
           Defined f \<Rightarrow>
             (let type0 = (if substring f (lastIndexOf CHR ''.'' f + 1) = ''css''
                           then ''theme'' else ''plugin'')
              in Inr \<lparr> basename = basename0, file = f, isDownload = False, package = package0,
                       slug = slug0, type = Defined type0, vendor = vendor0, version = Undefined,
                       isTheme = (''theme'' = type0), isPlugin = (''plugin'' = type0),
                       latestRelease = JUndefined, release = JUndefined,
                       fileHeaders = Map.empty \<rparr>)
         | _ \<Rightarrow> Inl (ThrowError ''TypeError''))"

text \<open>\<^verbatim>\<open>getPayload\<close> of \<^verbatim>\<open>src/unnamed/part_001\<close>, lines 125 to 158.\<close>

definition getPayload_v1 :: "data \<Rightarrow> thrown + jsval" where
  "getPayload_v1 d =
     thenE (getProp (release d) ''published_at'') (\<lambda>published.
     thenE (thenE (thenE (getProp (release d) ''assets'') getFirst)
              (\<lambda>asset. getProp asset ''browser_download_url'')) (\<lambda>download.
     Inr (JObject
       ([(''name'', if isTheme d then header (fileHeaders d) ''Theme Name''
                    else header (fileHeaders d) ''Plugin Name''),
         (''type'', fromNullable (type d)),
         (''version'', orEmpty (header (fileHeaders d) ''Version'')),
         (''description'', orEmpty (header (fileHeaders d) ''Description'')),
         (''author'', JObject [(''name'', orEmpty (header (fileHeaders d) ''Author'')),
                               (''url'', orEmpty (header (fileHeaders d) ''Author URI''))]),
         (''updated'', orEmpty published),
         (''slug'', fromNullable (slug d))]
        @ (if isPlugin d then [(''basename'', JString (basename d))] else [])
        @ [(''url'', if isTheme d then header (fileHeaders d) ''Theme URI''
                     else header (fileHeaders d) ''Plugin URI''),
           (''download'', download),
           (''requires'', JObject [(''wp'', orEmpty (header (fileHeaders d) ''Requires at least'')),
                                   (''php'', orEmpty (header (fileHeaders d) ''Requires PHP''))]),
           (''tested'', JObject [(''wp'', orEmpty (header (fileHeaders d) ''Tested up to''))])]))))"

text \<open>\<^verbatim>\<open>handleRequest\<close> of \<^verbatim>\<open>src/unnamed/part_001\<close>, lines 8 to 87.\<close>

definition handleRequest_v1 ::
  "(string \<rightharpoonup> response) \<Rightarrow> (string \<Rightarrow> fetched) \<Rightarrow> request
     \<Rightarrow> thrown + response \<times> (string \<times> response) list" where
  "handleRequest_v1 cache fetch request =
     (case cache (url request) of
        Some cached \<Rightarrow> Inr (cached, [])
      | None \<Rightarrow>
         thenE (getDataFromRequest_v1 request) (\<lambda>d.
           if \<not> truthyS (vendor d)
           then Inr (getErrorResponse (JString ''Missing URL param: vendor'') 400, [])
           else if \<not> truthyS (package d)
           then Inr (getErrorResponse (JString ''Missing URL param: package'') 400, [])
           else thenE (resolveInline fetch d) (\<lambda>resolved.
             case resolved of
               Inl early \<Rightarrow> Inr (early, [])
             | Inr d3 \<Rightarrow>
                thenE (getPayload_v1 d3) (\<lambda>payload.
                  let r = getResponse payload 200;
                      r = r\<lparr>headerFields :=
                             headerFields r @ [(''Cache-Control'', ''s=maxage=10'')]\<rparr>
                  in Inr (r, [(url request, r)])))))"

definition fetchListener_v1 ::
  "(string \<rightharpoonup> response) \<Rightarrow> (string \<Rightarrow> fetched) \<Rightarrow> request
     \<Rightarrow> response \<times> (string \<times> response) list" where
  "fetchListener_v1 cache fetch request =
     (case handleRequest_v1 cache fetch request of
        Inl err \<Rightarrow> (\<lparr> status = 500, statusText = [], headerFields = [], body = Stack err \<rparr>, [])
      | Inr answer \<Rightarrow> answer)"

subsection \<open>Example requests and answers\<close>

text \<open>
  Requests for the package \<^verbatim>\<open>widget\<close> of the vendor \<^verbatim>\<open>acme\<close>: by path, by path with
  the parameters \<^verbatim>\<open>slug\<close> and \<^verbatim>\<open>file\<close>, by path with the version \<^verbatim>\<open>1.0\<close>, and by
  query parameters with a given basename.
\<close>

definition pathRequest :: request where
  "pathRequest =
     \<lparr> url = ''https://releases.example.com/plugins/acme/widget'',
       pathname = ''/plugins/acme/widget'',
       searchParams = [] \<rparr>"

definition overrideRequest :: request where
  "overrideRequest =
     \<lparr> url = ''https://releases.example.com/plugins/acme/widget?slug=widget-pro&file=main.php'',
       pathname = ''/plugins/acme/widget'',
       searchParams = [(''slug'', ''widget-pro''), (''file'', ''main.php'')] \<rparr>"

definition versionRequest :: request where
  "versionRequest =
     \<lparr> url = ''https://releases.example.com/plugins/acme/widget/1.0'',
       pathname = ''/plugins/acme/widget/1.0'',
       searchParams = [] \<rparr>"

definition queryRequest :: "string \<Rightarrow> request" where
  "queryRequest b =
     \<lparr> url = ''https://releases.example.com/?vendor=acme&package=widget&basename='' @ b,
       pathname = ''/'',
       searchParams = [(''vendor'', ''acme''), (''package'', ''widget''), (''basename'', b)] \<rparr>"

text \<open>A release with a tag and a list of assets, and two assets.\<close>

definition releaseOf :: "string \<Rightarrow> jsval list \<Rightarrow> jsval" where
  "releaseOf tag assets = JObject [(''tag_name'', JString tag), (''assets'', JArray assets)]"

definition zipAsset :: jsval where
  "zipAsset = JObject [(''browser_download_url'', JString ''https://github.com/acme/widget/widget.zip'')]"

definition oldZipAsset :: jsval where
  "oldZipAsset = JObject [(''browser_download_url'',
      JString ''https://github.com/acme/widget/widget-1.0.zip'')]"

text \<open>
  An answer of the API with a status and a JSON body; the worker does not read its
  text, which is left empty.
\<close>

definition answer :: "nat \<Rightarrow> jsval \<Rightarrow> fetched" where
  "answer st v = \<lparr> fetchedStatus = st, fetchedText = [], fetchedJson = Some v \<rparr>"

text \<open>
  A world in which the list of releases of \<^verbatim>\<open>acme/widget\<close> and its release tagged
  \<^verbatim>\<open>1.0\<close> are answered as given, the plugin file is served at the tags \<^verbatim>\<open>2.0\<close>,
  \<^verbatim>\<open>1.9\<close> and \<^verbatim>\<open>1.0\<close>, and nothing else is found.
\<close>

definition github :: "fetched \<Rightarrow> fetched \<Rightarrow> string \<Rightarrow> fetched" where
  "github listAnswer tagAnswer u =
     (if u = ''https://api.github.com/repos/acme/widget/releases'' then listAnswer
      else if u = ''https://api.github.com/repos/acme/widget/releases/tags/1.0'' then tagAnswer
      else if u = ''https://raw.githubusercontent.com/acme/widget/2.0/widget.php''
            \<or> u = ''https://raw.githubusercontent.com/acme/widget/1.9/widget.php''
            \<or> u = ''https://raw.githubusercontent.com/acme/widget/1.0/widget.php''
      then \<lparr> fetchedStatus = 200,
             fetchedText = ''Plugin Name: Widget'' @ [CHR 0x0A] @ ''Version: 2.0'',
             fetchedJson = None \<rparr>
      else \<lparr> fetchedStatus = 404, fetchedText = ''404: Not Found'', fetchedJson = None \<rparr>)"

section \<open>Properties of the header parser\<close>

lemma exec_None: "pat \<noteq> [] \<Longrightarrow> \<not> sublist pat t \<Longrightarrow> exec pat t = None"
proof (induction t)
  case Nil
  then show ?case by simp
next
  case (Cons c cs)
  from Cons.prems(2) have np: "\<not> prefix pat (c # cs)" and ns: "\<not> sublist pat cs"
    by (simp_all add: sublist_Cons_right)
  from Cons.IH [OF Cons.prems(1) ns] np show ?case by simp
qed

lemma exec_first:
  "pat \<noteq> [] \<Longrightarrow> \<not> sublist pat (pre @ butlast pat) \<Longrightarrow>
   exec pat (pre @ pat @ rest) = Some (takeWhile (\<lambda>x. \<not> lineTerminator x) rest)"
proof (induction pre)
  case Nil
  then obtain p ps where "pat = p # ps" by (cases pat) auto
  then show ?case by simp
next
  case (Cons a pre)
  have np: "\<not> prefix pat ((a # pre) @ pat @ rest)"
  proof
    assume "prefix pat ((a # pre) @ pat @ rest)"
    then have "pat = take (length pat) ((a # pre) @ pat @ rest)"
      by (metis prefix_def append_eq_conv_conj)
    also have "\<dots> = take (length pat) ((a # pre) @ butlast pat)"
      using Cons.prems(1) by (simp add: take_Cons' butlast_conv_take)
    finally have "prefix pat ((a # pre) @ butlast pat)"
      by (metis take_is_prefix)
    then have "sublist pat ((a # pre) @ butlast pat)"
      by (rule prefix_imp_sublist)
    with Cons.prems(2) show False by simp
  qed
  have "\<not> sublist pat (pre @ butlast pat)"
    using Cons.prems(2) by (simp add: sublist_Cons_right)
  with Cons have "exec pat (pre @ pat @ rest) = Some (takeWhile (\<lambda>x. \<not> lineTerminator x) rest)"
    by simp
  with np show ?case by simp
qed

lemma foldl_headers:
  "foldl (\<lambda>fileHeaders header.
            (case exec (header @ '':'') t of
               None \<Rightarrow> fileHeaders
             | Some m \<Rightarrow> fileHeaders(header \<mapsto> trim m))) m0 hs k =
   (if k \<in> set hs
    then (case exec (k @ '':'') t of None \<Rightarrow> m0 k | Some m \<Rightarrow> Some (trim m))
    else m0 k)"
  by (induction hs arbitrary: m0) (auto split: option.splits)

lemma getFileHeaders_lookup:
  "getFileHeaders t k = (if k \<in> set headers then map_option trim (exec (k @ '':'') t) else None)"
  unfolding getFileHeaders_def foldl_headers by (simp split: option.splits)

lemma takeWhile_line:
  "\<forall>c\<in>set v. \<not> lineTerminator c \<Longrightarrow> post = [] \<or> lineTerminator (hd post) \<Longrightarrow>
   takeWhile (\<lambda>x. \<not> lineTerminator x) (v @ post) = v"
  by (cases post) (simp_all add: takeWhile_append2 takeWhile_eq_all_conv)

lemma trim_ends:
  "trim s = [] \<or> (\<not> whiteSpace (hd (trim s)) \<and> \<not> whiteSpace (last (trim s)))"
proof (cases "trim s = []")
  case True
  then show ?thesis by simp
next
  case False
  define t where "t = dropWhile whiteSpace s"
  define u where "u = dropWhile whiteSpace (rev t)"
  have ts: "trim s = rev u" by (simp add: trim_def t_def u_def)
  with False have u: "u \<noteq> []" by simp
  then have "\<not> whiteSpace (hd u)" unfolding u_def by (rule hd_dropWhile)
  then have l: "\<not> whiteSpace (last (trim s))" using u ts by (simp add: last_rev)
  have "rev t = takeWhile whiteSpace (rev t) @ u" by (simp add: u_def)
  then have "t = rev u @ rev (takeWhile whiteSpace (rev t))"
    by (metis rev_append rev_rev_ident)
  then have hd: "hd t = hd (rev u)" using u by (metis hd_append2 rev_is_Nil_conv)
  have "t \<noteq> []" using u u_def by auto
  then have "\<not> whiteSpace (hd t)" unfolding t_def by (rule hd_dropWhile)
  with hd ts l show ?thesis by simp
qed

lemma dropWhile_hd: "xs \<noteq> [] \<Longrightarrow> \<not> P (hd xs) \<Longrightarrow> dropWhile P xs = xs"
  by (cases xs) auto

lemma trim_idem: "trim (trim s) = trim s"
proof (cases "trim s = []")
  case True
  have "trim [] = []" by (simp add: trim_def)
  with True show ?thesis by simp
next
  case False
  with trim_ends [of s] have a: "\<not> whiteSpace (hd (trim s))"
    and b: "\<not> whiteSpace (last (trim s))" by auto
  have 1: "dropWhile whiteSpace (trim s) = trim s"
    using False a by (rule dropWhile_hd)
  have "rev (trim s) \<noteq> []" using False by simp
  moreover have "\<not> whiteSpace (hd (rev (trim s)))" using False b by (simp add: hd_rev)
  ultimately have 2: "dropWhile whiteSpace (rev (trim s)) = rev (trim s)"
    by (rule dropWhile_hd)
  have "trim (trim s) = rev (dropWhile whiteSpace (rev (dropWhile whiteSpace (trim s))))"
    by (rule trim_def)
  also have "\<dots> = rev (dropWhile whiteSpace (rev (trim s)))" by (simp only: 1)
  also have "\<dots> = rev (rev (trim s))" by (simp only: 2)
  finally show ?thesis by simp
qed

lemma version_line: "getFileHeaders ''Version: 1.2.3   '' ''Version'' = Some ''1.2.3''"
proof -
  have "exec ''Version:'' ''Version: 1.2.3   '' = Some '' 1.2.3   ''"
    by (simp add: lineTerminator_def)
  moreover have "trim '' 1.2.3   '' = ''1.2.3''"
    by (simp add: trim_def whiteSpace_def lineTerminator_def)
  moreover have "''Version'' \<in> set headers"
    by (simp add: headers_def)
  ultimately show ?thesis by (simp add: getFileHeaders_lookup)
qed

text \<open>
  Claim C6, as stated, fails where a header name followed by a colon occurs
  earlier inside another header. The regular expression has no anchor at the
  start of a line, so in a text with the line
  \<^verbatim>\<open>GitHub Plugin URI: https://github.com/acme/widget\<close> before the line
  \<^verbatim>\<open>Plugin URI: https://acme.example/widget\<close> the search for \<^verbatim>\<open>Plugin URI\<close> matches
  inside the first line, and the parser returns the value of the other header, not
  the rest of the line of the form \<^verbatim>\<open>Plugin URI: value\<close>.
\<close>

theorem getFileHeaders_first_match_counterexample:
  "getFileHeaders (''GitHub Plugin URI: https://github.com/acme/widget'' @ [CHR 0x0A]
       @ ''Plugin URI: https://acme.example/widget'') ''Plugin URI''
     = Some ''https://github.com/acme/widget''
   \<and> ''https://github.com/acme/widget'' \<noteq> ''https://acme.example/widget''"
proof -
  have "exec ''Plugin URI:'' (''GitHub Plugin URI: https://github.com/acme/widget'' @ [CHR 0x0A]
       @ ''Plugin URI: https://acme.example/widget'') = Some '' https://github.com/acme/widget''"
    by (simp add: lineTerminator_def)
  moreover have "trim '' https://github.com/acme/widget'' = ''https://github.com/acme/widget''"
    by (simp add: trim_def whiteSpace_def lineTerminator_def)
  moreover have "''Plugin URI'' \<in> set headers"
    by (simp add: headers_def)
  ultimately show ?thesis by (simp add: getFileHeaders_lookup)
qed

text \<open>
  Claim C6, amended. Let \<open>h\<close> be one of the known header names and let the text of
  the file be \<open>pre @ h @ '':'' @ v @ post\<close>, where this is the leftmost place at which
  \<open>h\<close> followed by a colon occurs, at the start of a line or inside one, \<open>v\<close> holds
  no line terminator, and \<open>post\<close> is empty or starts with one: \<open>v\<close> is the rest of
  the first line in which the name and the colon occur. Then the parser maps \<open>h\<close>
  to \<open>v\<close> with the white space trimmed from both ends. The line
  \<^verbatim>\<open>Version: 1.2.3   \<close> gives exactly \<^verbatim>\<open>1.2.3\<close>. A header name that, followed by a
  colon, occurs nowhere in the text is no key of the map.
\<close>

theorem getFileHeaders_first_match:
  "(h \<in> set headers \<and> \<not> sublist (h @ '':'') (pre @ butlast (h @ '':''))
      \<and> (\<forall>c\<in>set v. \<not> lineTerminator c) \<and> (post = [] \<or> lineTerminator (hd post))
    \<longrightarrow> getFileHeaders (pre @ h @ '':'' @ v @ post) h = Some (trim v))
   \<and> getFileHeaders ''Version: 1.2.3   '' ''Version'' = Some ''1.2.3''
   \<and> (\<not> sublist (k @ '':'') t \<longrightarrow> getFileHeaders t k = None)"
proof (intro conjI impI)
  assume a: "h \<in> set headers \<and> \<not> sublist (h @ '':'') (pre @ butlast (h @ '':''))
      \<and> (\<forall>c\<in>set v. \<not> lineTerminator c) \<and> (post = [] \<or> lineTerminator (hd post))"
  then have "exec (h @ '':'') (pre @ (h @ '':'') @ (v @ post)) =
      Some (takeWhile (\<lambda>x. \<not> lineTerminator x) (v @ post))"
    by (intro exec_first) simp_all
  moreover have "takeWhile (\<lambda>x. \<not> lineTerminator x) (v @ post) = v"
    using a by (intro takeWhile_line) simp_all
  ultimately have "exec (h @ '':'') (pre @ h @ '':'' @ v @ post) = Some v"
    by simp
  then show "getFileHeaders (pre @ h @ '':'' @ v @ post) h = Some (trim v)"
    using a by (simp add: getFileHeaders_lookup)
next
  show "getFileHeaders ''Version: 1.2.3   '' ''Version'' = Some ''1.2.3''"
    by (rule version_line)
next
  assume "\<not> sublist (k @ '':'') t"
  then have "exec (k @ '':'') t = None" by (intro exec_None) simp_all
  then show "getFileHeaders t k = None" by (simp add: getFileHeaders_lookup)
qed

theorem getFileHeaders_first_match_witness:
  "(''Version'' \<in> set headers
     \<and> \<not> sublist ''Version:'' (('' * Plugin Name: Widget'' @ [CHR 0x0A] @ '' * '') @ ''Version'')
     \<and> list_all (\<lambda>c. \<not> lineTerminator c) '' 1.2.3   ''
     \<and> lineTerminator (hd ([CHR 0x0A] @ '' */'')))
   \<and> getFileHeaders (('' * Plugin Name: Widget'' @ [CHR 0x0A] @ '' * '') @ ''Version'' @ '':''
         @ '' 1.2.3   '' @ [CHR 0x0A] @ '' */'') ''Version'' = Some ''1.2.3''
   \<and> \<not> sublist (''Author'' @ '':'') ''Version: 1.2.3   ''
   \<and> getFileHeaders ''Version: 1.2.3   '' ''Author'' = None"
proof -
  have h1: "''Version'' \<in> set headers"
    by (simp add: headers_def)
  have h2: "\<not> sublist (''Version'' @ '':'')
      (('' * Plugin Name: Widget'' @ [CHR 0x0A] @ '' * '') @ butlast (''Version'' @ '':''))"
    by (simp add: sublist_Cons_right)
  have h3: "\<forall>c\<in>set '' 1.2.3   ''. \<not> lineTerminator c"
    by (simp add: lineTerminator_def)
  have h4: "lineTerminator (hd ([CHR 0x0A] @ '' */''))"
    by (simp add: lineTerminator_def)
  have h5: "\<not> sublist (''Author'' @ '':'') ''Version: 1.2.3   ''"
    by (simp add: sublist_Cons_right)
  have tr: "trim '' 1.2.3   '' = ''1.2.3''"
    by (simp add: trim_def whiteSpace_def lineTerminator_def)
  note t = getFileHeaders_first_match [of "''Version''"
      "'' * Plugin Name: Widget'' @ [CHR 0x0A] @ '' * ''"
      "'' 1.2.3   ''" "[CHR 0x0A] @ '' */''" "''Author''" "''Version: 1.2.3   ''"]
  from t h1 h2 h3 h4 have "getFileHeaders (('' * Plugin Name: Widget'' @ [CHR 0x0A] @ '' * '')
      @ ''Version'' @ '':'' @ '' 1.2.3   '' @ [CHR 0x0A] @ '' */'') ''Version''
      = Some (trim '' 1.2.3   '')"
    by blast
  moreover from t h5 have "getFileHeaders ''Version: 1.2.3   '' ''Author'' = None"
    by blast
  ultimately show ?thesis using h1 h2 h3 h4 h5 tr by (simp add: list_all_iff)
qed

text \<open>
  Claim C10. Whatever the text, the keys of the map that the header parser returns
  are among the fifteen header names of its list, and every value of the map is
  trimmed: trimming it again changes nothing, and unless it is empty it neither
  starts nor ends with a white space character.
\<close>

theorem getFileHeaders_whitelist_trimmed:
  "dom (getFileHeaders t) \<subseteq> set headers \<and> length headers = 15 \<and> distinct headers
   \<and> (\<forall>k v. getFileHeaders t k = Some v \<longrightarrow>
         trim v = v \<and> (v = [] \<or> (\<not> whiteSpace (hd v) \<and> \<not> whiteSpace (last v))))"
proof (intro conjI allI impI)
  show "dom (getFileHeaders t) \<subseteq> set headers"
    by (auto simp: getFileHeaders_lookup split: if_splits)
  show "length headers = 15" by (simp add: headers_def)
  show "distinct headers" by (simp add: headers_def)
next
  fix k v assume "getFileHeaders t k = Some v"
  then obtain m where v: "v = trim m"
    by (auto simp: getFileHeaders_lookup split: if_splits)
  show "trim v = v" unfolding v by (rule trim_idem)
  show "v = [] \<or> (\<not> whiteSpace (hd v) \<and> \<not> whiteSpace (last v))"
    unfolding v by (rule trim_ends)
qed

theorem getFileHeaders_whitelist_trimmed_witness:
  "getFileHeaders ''Version: 1.2.3   '' ''Version'' = Some ''1.2.3''
   \<and> trim ''1.2.3'' = ''1.2.3''
   \<and> \<not> whiteSpace (hd ''1.2.3'') \<and> \<not> whiteSpace (last ''1.2.3'')"
proof -
  note g = version_line
  from getFileHeaders_whitelist_trimmed [of "''Version: 1.2.3   ''"] g
  have "trim ''1.2.3'' = ''1.2.3''
      \<and> (''1.2.3'' = [] \<or> (\<not> whiteSpace (hd ''1.2.3'') \<and> \<not> whiteSpace (last ''1.2.3'')))"
    by blast
  with g show ?thesis by simp
qed

section \<open>Properties of the request parsers\<close>

subsection \<open>Pieces of a string\<close>

lemma split_not_Nil: "split sep s \<noteq> []"
  by (induction s) (auto split: list.splits)

lemma split_no_sep: "sep \<notin> set s \<Longrightarrow> split sep s = [s]"
  by (induction s) auto

lemma split_append_sep: "sep \<notin> set s \<Longrightarrow> split sep (s @ sep # rest) = s # split sep rest"
  by (induction s) auto

lemma joinWith_split: "joinWith [sep] (split sep s) = s"
proof (induction s)
  case Nil
  then show ?case by simp
next
  case (Cons c cs)
  obtain w ws where w: "split sep cs = w # ws"
    using split_not_Nil [of sep cs] by (cases "split sep cs") auto
  show ?case
  proof (cases "c = sep")
    case True
    with Cons w show ?thesis by simp
  next
    case False
    with Cons w show ?thesis by (cases ws) auto
  qed
qed

lemma length_split: "length (split sep s) = Suc (length (filter (\<lambda>c. c = sep) s))"
proof (induction s)
  case Nil
  then show ?case by simp
next
  case (Cons c cs)
  obtain w ws where w: "split sep cs = w # ws"
    using split_not_Nil [of sep cs] by (cases "split sep cs") auto
  with Cons show ?case by auto
qed

lemma suffix_past_sep: "sep \<notin> set xs \<Longrightarrow> suffix xs (s @ sep # f) \<longleftrightarrow> suffix xs f"
  by (auto simp: suffix_append suffix_Cons)

subsection \<open>The extension of a file name\<close>

lemma drop_takeWhile_rev:
  "drop (length s - length (takeWhile P (rev s))) s = rev (takeWhile P (rev s))"
proof -
  have "rev (takeWhile P (rev s)) = rev (take (length (takeWhile P (rev s))) (rev s))"
    by (metis append_eq_conv_conj takeWhile_dropWhile_id)
  also have "\<dots> = drop (length s - length (takeWhile P (rev s))) s"
    by (simp add: rev_take)
  finally show ?thesis by simp
qed

lemma extension_dot:
  assumes "c \<in> set s"
  shows "substring s (lastIndexOf c s + 1) = rev (takeWhile (\<lambda>x. x \<noteq> c) (rev s))"
proof -
  have le: "length (takeWhile (\<lambda>x. x \<noteq> c) (rev s)) \<le> length s"
    by (metis length_rev length_takeWhile_le)
  have "nat (lastIndexOf c s + 1) = length s - length (takeWhile (\<lambda>x. x \<noteq> c) (rev s))"
    using assms le by (simp add: lastIndexOf_def nat_diff_distrib')
  then show ?thesis by (simp add: substring_def drop_takeWhile_rev)
qed

lemma extension_no_dot: "c \<notin> set s \<Longrightarrow> substring s (lastIndexOf c s + 1) = s"
  by (simp add: substring_def lastIndexOf_def)

lemma css_extension:
  "substring f (lastIndexOf CHR ''.'' f + 1) = ''css'' \<longleftrightarrow> f = ''css'' \<or> suffix ''.css'' f"
proof (cases "CHR ''.'' \<in> set f")
  case False
  then have "\<not> suffix ''.css'' f" by (auto simp: suffix_def)
  with False show ?thesis by (simp add: extension_no_dot)
next
  case True
  then have "\<exists>ys zs. rev f = ys @ CHR ''.'' # zs \<and> CHR ''.'' \<notin> set ys"
    by (intro split_list_first) simp
  then obtain ys zs where r: "rev f = ys @ CHR ''.'' # zs" and n: "CHR ''.'' \<notin> set ys"
    by blast
  have "takeWhile (\<lambda>x. x \<noteq> CHR ''.'') (ys @ CHR ''.'' # zs)
      = ys @ takeWhile (\<lambda>x. x \<noteq> CHR ''.'') (CHR ''.'' # zs)"
    using n by (intro takeWhile_append2) auto
  then have tw: "takeWhile (\<lambda>x. x \<noteq> CHR ''.'') (ys @ CHR ''.'' # zs) = ys"
    by simp
  have ext: "substring f (lastIndexOf CHR ''.'' f + 1) = rev ys"
    using extension_dot [OF True] r tw by simp
  from r have f: "f = rev zs @ CHR ''.'' # rev ys" by (simp add: rev_swap)
  have nf: "f \<noteq> ''css''" using True by auto
  have "rev ys = ''css'' \<longleftrightarrow> suffix ''.css'' f"
  proof
    assume "rev ys = ''css''"
    with f show "suffix ''.css'' f" by (simp add: suffix_def)
  next
    assume "suffix ''.css'' f"
    then obtain q where "f = q @ ''.css''" by (auto simp: suffix_def)
    then have "rev f = ''ssc'' @ CHR ''.'' # rev q" by simp
    then have "takeWhile (\<lambda>x. x \<noteq> CHR ''.'') (rev f) = ''ssc''" by simp
    with r tw have "ys = ''ssc''" by simp
    then show "rev ys = ''css''" by simp
  qed
  with ext nf show ?thesis by simp
qed

subsection \<open>The data of a request\<close>

lemma request_fields:
  fixes request
  defines "segs \<equiv> filter (\<lambda>value. value \<noteq> []) (split CHR ''/'' (pathname request))"
  defines "rest \<equiv> snd (shift (snd (shift (snd (shift segs)))))"
  shows "vendor (getDataFromRequest request) = fst (shift (snd (shift segs)))"
    and "package (getDataFromRequest request) = fst (shift (snd (shift (snd (shift segs)))))"
    and "version (getDataFromRequest request)
           = fst (shift (if ''download'' \<in> set rest then butlast rest else rest))"
  unfolding getDataFromRequest_def segs_def rest_def
  by (simp_all add: Let_def split: prod.splits)

lemma shift_fst: "fst (shift xs) = Defined x \<Longrightarrow> x \<in> set xs"
  by (cases xs) auto

lemma shift_snd: "set (snd (shift xs)) \<subseteq> set xs"
  by (cases xs) auto

lemma version_not_empty:
  assumes "version (getDataFromRequest request) = Defined v"
  shows "v \<noteq> []"
proof -
  define segs where "segs = filter (\<lambda>value. value \<noteq> []) (split CHR ''/'' (pathname request))"
  define rest where "rest = snd (shift (snd (shift (snd (shift segs)))))"
  have "set rest \<subseteq> set segs"
    unfolding rest_def using shift_snd by (meson subset_trans)
  moreover have "v \<in> set (if ''download'' \<in> set rest then butlast rest else rest)"
    using assms request_fields(3) [of request, folded segs_def, folded rest_def]
    by (intro shift_fst) simp
  then have "v \<in> set rest" by (auto dest: in_set_butlastD split: if_splits)
  ultimately have "v \<in> set segs" by blast
  then show ?thesis by (simp add: segs_def)
qed

lemma version_needs_package:
  assumes "truthyS (version (getDataFromRequest request))"
  shows "truthyS (vendor (getDataFromRequest request))
     \<and> truthyS (package (getDataFromRequest request))"
proof -
  define segs where "segs = filter (\<lambda>value. value \<noteq> []) (split CHR ''/'' (pathname request))"
  have ne: "x \<noteq> []" if "x \<in> set segs" for x using that by (simp add: segs_def)
  note f = request_fields [of request, folded segs_def]
  show ?thesis
  proof (cases segs)
    case Nil
    with assms f show ?thesis by simp
  next
    case (Cons a as)
    note A = this
    show ?thesis
    proof (cases as)
      case Nil
      with assms f A show ?thesis by simp
    next
      case (Cons b bs)
      note B = this
      show ?thesis
      proof (cases bs)
        case Nil
        with assms f A B show ?thesis by simp
      next
        case (Cons c cs)
        with A B ne [of b] ne [of c] have "b \<noteq> []" "c \<noteq> []" by simp_all
        with f A B Cons show ?thesis by simp
      qed
    qed
  qed
qed

lemma v1_fields:
  assumes "getDataFromRequest_v1 request = Inr d"
  shows "\<exists>s f rest. split CHR ''/'' (basename d) = s # f # rest \<and> slug d = Defined s \<and> file d = f"
proof -
  let ?b = "if truthyS (searchGet request ''basename'') then tmpl (searchGet request ''basename'')
            else tmpl (searchGet request ''package'') @ ''/''
              @ tmpl (searchGet request ''package'') @ ''.php''"
  obtain f where f: "at (split CHR ''/'' ?b) 1 = Defined f"
    using assms
    by (cases "at (split CHR ''/'' ?b) 1") (simp_all add: getDataFromRequest_v1_def Let_def)
  with assms have d: "basename d = ?b" "file d = f" "slug d = at (split CHR ''/'' ?b) 0"
    by (auto simp: getDataFromRequest_v1_def Let_def)
  from f have "1 < length (split CHR ''/'' ?b)" by (simp add: at_def split: if_splits)
  then obtain s f' rest where sp: "split CHR ''/'' ?b = s # f' # rest"
    by (cases "split CHR ''/'' ?b" rule: list.exhaust; cases "tl (split CHR ''/'' ?b)") auto
  with f have "f' = f" by (simp add: at_def)
  with sp d show ?thesis by (simp add: at_def)
qed

lemma v1_basename:
  assumes "getDataFromRequest_v1 request = Inr d"
  shows "basename d = tmpl (slug d) @ ''/'' @ file d
     \<longleftrightarrow> length (filter (\<lambda>c. c = CHR ''/'') (basename d)) = 1"
proof -
  from v1_fields [OF assms] obtain s f rest
    where sp: "split CHR ''/'' (basename d) = s # f # rest" and sl: "slug d = Defined s"
      and fl: "file d = f" by blast
  have j: "joinWith ''/'' (s # f # rest) = basename d"
    using joinWith_split [of "CHR ''/''" "basename d"] sp by simp
  have n: "length (filter (\<lambda>c. c = CHR ''/'') (basename d)) = Suc (length rest)"
    using length_split [of "CHR ''/''" "basename d"] sp by simp
  show ?thesis
  proof (cases rest)
    case Nil
    with j n sl fl show ?thesis by simp
  next
    case (Cons g gs)
    with j have "basename d = s @ ''/'' @ f @ ''/'' @ joinWith ''/'' (g # gs)" by simp
    then have "basename d \<noteq> s @ ''/'' @ f" by simp
    with n Cons sl fl show ?thesis by simp
  qed
qed

subsection \<open>The basename\<close>

text \<open>
  Claim C5, as stated, fails in three places. In the path-based revision an empty
  \<^verbatim>\<open>slug\<close> parameter is falsy and gives way to the package name, so
  \<^verbatim>\<open>slug=&file=main.php\<close> yields \<^verbatim>\<open>widget/main.php\<close>, not \<^verbatim>\<open>/main.php\<close>. The
  query-based revision does not read \<^verbatim>\<open>slug\<close> and \<^verbatim>\<open>file\<close> at all. And in the
  query-based revision the basename \<^verbatim>\<open>widget/src/widget.php\<close> is kept whole while
  slug and file are its first two pieces, \<^verbatim>\<open>widget\<close> and \<^verbatim>\<open>src\<close>, from which it
  cannot be rebuilt.
\<close>

theorem basename_reconstruction_counterexample:
  "basename (getDataFromRequest
       \<lparr> url = ''https://releases.example.com/plugins/acme/widget?slug=&file=main.php'',
         pathname = ''/plugins/acme/widget'',
         searchParams = [(''slug'', []), (''file'', ''main.php'')] \<rparr>)
     = ''widget/main.php''
   \<and> map_sum id basename (getDataFromRequest_v1
       \<lparr> url = ''https://releases.example.com/?vendor=acme&package=widget&slug=pro&file=main.php'',
         pathname = ''/'',
         searchParams = [(''vendor'', ''acme''), (''package'', ''widget''),
                         (''slug'', ''pro''), (''file'', ''main.php'')] \<rparr>)
     = Inr ''widget/widget.php''
   \<and> getDataFromRequest_v1 (queryRequest ''widget/src/widget.php'')
     = Inr \<lparr> basename = ''widget/src/widget.php'', file = ''src'', isDownload = False,
             package = Defined ''widget'', slug = Defined ''widget'', type = Defined ''plugin'',
             vendor = Defined ''acme'', version = Undefined, isTheme = False, isPlugin = True,
             latestRelease = JUndefined, release = JUndefined, fileHeaders = Map.empty \<rparr>"
  by (simp add: getDataFromRequest_def getDataFromRequest_v1_def pathRequest_def queryRequest_def
      searchGet_def orElse_def at_def substring_def lastIndexOf_def Let_def)

text \<open>
  Claim C5, amended. For every non-empty slug \<open>S\<close> and non-empty file \<open>F\<close>, a request
  supplying them as the parameters \<^verbatim>\<open>slug\<close> and \<^verbatim>\<open>file\<close> yields, in both path-based
  revisions, a descriptor whose basename is \<open>S\<close>, a slash and \<open>F\<close>. In both
  path-based revisions the basename of every descriptor is its slug, a slash and
  its file. In the query-based revision, where the basename is the input, the
  basename of a descriptor is its slug, a slash and its file exactly when it holds
  exactly one slash.
\<close>

theorem basename_reconstruction:
  "(searchGet request ''slug'' = Defined S \<and> S \<noteq> []
      \<and> searchGet request ''file'' = Defined F \<and> F \<noteq> []
      \<longrightarrow> basename (getDataFromRequest request) = S @ ''/'' @ F
        \<and> basename (getDataFromRequest_v2 request) = S @ ''/'' @ F)
   \<and> basename (getDataFromRequest request)
       = tmpl (slug (getDataFromRequest request)) @ ''/'' @ file (getDataFromRequest request)
   \<and> basename (getDataFromRequest_v2 request)
       = tmpl (slug (getDataFromRequest_v2 request)) @ ''/''
           @ file (getDataFromRequest_v2 request)
   \<and> (getDataFromRequest_v1 request = Inr d
      \<longrightarrow> (basename d = tmpl (slug d) @ ''/'' @ file d
           \<longleftrightarrow> length (filter (\<lambda>c. c = CHR ''/'') (basename d)) = 1))"
proof (intro conjI impI)
  assume a: "searchGet request ''slug'' = Defined S \<and> S \<noteq> []
      \<and> searchGet request ''file'' = Defined F \<and> F \<noteq> []"
  then show "basename (getDataFromRequest request) = S @ ''/'' @ F"
    by (simp add: getDataFromRequest_def Let_def orElse_def split: prod.splits)
  from a show "basename (getDataFromRequest_v2 request) = S @ ''/'' @ F"
    by (simp add: getDataFromRequest_v2_def Let_def orElse_def)
next
  show "basename (getDataFromRequest request)
       = tmpl (slug (getDataFromRequest request)) @ ''/'' @ file (getDataFromRequest request)"
    by (simp add: getDataFromRequest_def Let_def split: prod.splits)
  show "basename (getDataFromRequest_v2 request)
       = tmpl (slug (getDataFromRequest_v2 request)) @ ''/''
           @ file (getDataFromRequest_v2 request)"
    by (simp add: getDataFromRequest_v2_def Let_def)
next
  assume "getDataFromRequest_v1 request = Inr d"
  then show "basename d = tmpl (slug d) @ ''/'' @ file d
           \<longleftrightarrow> length (filter (\<lambda>c. c = CHR ''/'') (basename d)) = 1"
    by (rule v1_basename)
qed

theorem basename_reconstruction_witness:
  "searchGet (overrideRequest)
       ''slug'' = Defined ''widget-pro''
   \<and> searchGet (overrideRequest)
       ''file'' = Defined ''main.php''
   \<and> basename (getDataFromRequest
         (overrideRequest))
       = ''widget-pro/main.php''
   \<and> map_sum id basename (getDataFromRequest_v1 (queryRequest ''widget/widget.php''))
       = Inr ''widget/widget.php''
   \<and> map_sum id slug (getDataFromRequest_v1 (queryRequest ''widget/widget.php''))
       = Inr (Defined ''widget'')
   \<and> map_sum id file (getDataFromRequest_v1 (queryRequest ''widget/widget.php''))
       = Inr ''widget.php''
   \<and> length (filter (\<lambda>c. c = CHR ''/'') ''widget/widget.php'') = 1"
proof -
  let ?r = "overrideRequest"
  let ?d = "\<lparr> basename = ''widget/widget.php'', file = ''widget.php'', isDownload = False,
              package = Defined ''widget'', slug = Defined ''widget'', type = Defined ''plugin'',
              vendor = Defined ''acme'', version = Undefined, isTheme = False, isPlugin = True,
              latestRelease = JUndefined, release = JUndefined, fileHeaders = Map.empty \<rparr>"
  have s: "searchGet ?r ''slug'' = Defined ''widget-pro''"
    and f: "searchGet ?r ''file'' = Defined ''main.php''"
    by (simp_all add: searchGet_def overrideRequest_def)
  have q: "getDataFromRequest_v1 (queryRequest ''widget/widget.php'') = Inr ?d"
    by (simp add: getDataFromRequest_v1_def queryRequest_def searchGet_def at_def Let_def
        substring_def lastIndexOf_def)
  have n: "length (filter (\<lambda>c. c = CHR ''/'') (basename ?d)) = 1" by simp
  from basename_reconstruction [of ?r "''widget-pro''" "''main.php''"] s f
  have 1: "basename (getDataFromRequest ?r) = ''widget-pro'' @ ''/'' @ ''main.php''"
    by simp
  from basename_reconstruction [of "queryRequest ''widget/widget.php''" S F ?d] q n
  have 2: "basename ?d = tmpl (slug ?d) @ ''/'' @ file ?d"
    by blast
  from s f 1 2 q show ?thesis by simp
qed

subsection \<open>The entity type of the query-based revision\<close>

text \<open>
  Claim C7, as stated, fails in both directions. The basename \<^verbatim>\<open>mytheme/css\<close> does
  not end in \<^verbatim>\<open>.css\<close> and is classified as a theme: its file \<^verbatim>\<open>css\<close> has no dot,
  \<^verbatim>\<open>lastIndexOf\<close> is \<open>-1\<close> and the substring from index 0 is the whole name. The
  basename \<^verbatim>\<open>mytheme/assets/style.css\<close> ends in \<^verbatim>\<open>.css\<close> and is classified as a
  plugin: the file is the second piece, \<^verbatim>\<open>assets\<close>.
\<close>

theorem type_from_basename_counterexample:
  "map_sum id type (getDataFromRequest_v1 (queryRequest ''mytheme/css'')) = Inr (Defined ''theme'')
   \<and> \<not> suffix ''.css'' ''mytheme/css''
   \<and> map_sum id type (getDataFromRequest_v1 (queryRequest ''mytheme/assets/style.css''))
       = Inr (Defined ''plugin'')
   \<and> suffix ''.css'' ''mytheme/assets/style.css''"
  by (simp add: getDataFromRequest_v1_def queryRequest_def searchGet_def at_def substring_def
      lastIndexOf_def Let_def suffix_def)

text \<open>
  Claim C7, amended. For every basename supplied to the query-based parser that is
  a slug, one slash and a file, with no further slash, and whose file is not the
  bare word \<^verbatim>\<open>css\<close>, the parser succeeds and the entity type is theme if the basename
  ends in \<^verbatim>\<open>.css\<close> and plugin if it does not.
\<close>

theorem type_from_basename:
  "searchGet request ''basename'' = Defined (s @ ''/'' @ f)
     \<and> CHR ''/'' \<notin> set s \<and> CHR ''/'' \<notin> set f \<and> f \<noteq> ''css''
   \<longrightarrow> map_sum id type (getDataFromRequest_v1 request)
         = Inr (Defined (if suffix ''.css'' (s @ ''/'' @ f) then ''theme'' else ''plugin''))"
proof
  assume a: "searchGet request ''basename'' = Defined (s @ ''/'' @ f)
     \<and> CHR ''/'' \<notin> set s \<and> CHR ''/'' \<notin> set f \<and> f \<noteq> ''css''"
  then have sp: "split CHR ''/'' (s @ ''/'' @ f) = [s, f]"
    by (simp add: split_append_sep split_no_sep)
  have "suffix ''.css'' (s @ CHR ''/'' # f) \<longleftrightarrow> suffix ''.css'' f"
    by (rule suffix_past_sep) simp
  then have ext: "substring f (lastIndexOf CHR ''.'' f + 1) = ''css''
      \<longleftrightarrow> suffix ''.css'' (s @ ''/'' @ f)"
    using a by (simp add: css_extension)
  have "getDataFromRequest_v1 request
      = Inr \<lparr> basename = s @ ''/'' @ f, file = f, isDownload = False,
              package = searchGet request ''package'', slug = Defined s,
              type = Defined (if substring f (lastIndexOf CHR ''.'' f + 1) = ''css''
                              then ''theme'' else ''plugin''),
              vendor = searchGet request ''vendor'', version = Undefined,
              isTheme = (''theme'' = (if substring f (lastIndexOf CHR ''.'' f + 1) = ''css''
                              then ''theme'' else ''plugin'')),
              isPlugin = (''plugin'' = (if substring f (lastIndexOf CHR ''.'' f + 1) = ''css''
                              then ''theme'' else ''plugin'')),
              latestRelease = JUndefined, release = JUndefined, fileHeaders = Map.empty \<rparr>"
    using a sp unfolding getDataFromRequest_v1_def Let_def by (simp add: at_def)
  then show "map_sum id type (getDataFromRequest_v1 request)
         = Inr (Defined (if suffix ''.css'' (s @ ''/'' @ f) then ''theme'' else ''plugin''))"
    using ext by simp
qed

theorem type_from_basename_witness:
  "searchGet (queryRequest ''mytheme/style.css'') ''basename''
     = Defined (''mytheme'' @ ''/'' @ ''style.css'')
   \<and> CHR ''/'' \<notin> set ''mytheme'' \<and> CHR ''/'' \<notin> set ''style.css'' \<and> ''style.css'' \<noteq> ''css''
   \<and> suffix ''.css'' ''mytheme/style.css''
   \<and> map_sum id type (getDataFromRequest_v1 (queryRequest ''mytheme/style.css''))
         = Inr (Defined ''theme'')"
proof -
  have b: "searchGet (queryRequest ''mytheme/style.css'') ''basename''
      = Defined (''mytheme'' @ ''/'' @ ''style.css'')"
    by (simp add: searchGet_def queryRequest_def)
  have c: "CHR ''/'' \<notin> set ''mytheme''" "CHR ''/'' \<notin> set ''style.css''" "''style.css'' \<noteq> ''css''"
    by simp_all
  have s: "suffix ''.css'' (''mytheme'' @ ''/'' @ ''style.css'')"
    by (simp add: suffix_def)
  from type_from_basename [of "queryRequest ''mytheme/style.css''" "''mytheme''" "''style.css''"] b c
  have "map_sum id type (getDataFromRequest_v1 (queryRequest ''mytheme/style.css''))
         = Inr (Defined (if suffix ''.css'' (''mytheme'' @ ''/'' @ ''style.css'')
                         then ''theme'' else ''plugin''))"
    by blast
  with s have "map_sum id type (getDataFromRequest_v1 (queryRequest ''mytheme/style.css''))
         = Inr (Defined ''theme'')"
    by simp
  with b c s show ?thesis by simp
qed

subsection \<open>A basename without a slash\<close>

text \<open>
  Claim C9, as stated, fails for the empty basename, which holds no slash: the
  parameter \<^verbatim>\<open>basename=\<close> is falsy, the default basename built from the package
  takes its place, nothing is raised, and the request that names no vendor is
  answered with the validation error 400.
\<close>

theorem basename_without_separator_counterexample:
  "CHR ''/'' \<notin> set []
   \<and> fetchListener_v1 Map.empty (github (answer 200 (JArray [])) (answer 404 JNull))
       \<lparr> url = ''https://releases.example.com/?basename='', pathname = ''/'',
         searchParams = [(''basename'', [])] \<rparr>
     = (getErrorResponse (JString ''Missing URL param: vendor'') 400, [])
   \<and> status (getErrorResponse (JString ''Missing URL param: vendor'') 400) = 400"
  by (simp add: fetchListener_v1_def handleRequest_v1_def getDataFromRequest_v1_def searchGet_def
      at_def substring_def lastIndexOf_def thenE_def Let_def getErrorResponse_def getResponse_def)

text \<open>
  Claim C9, amended. In the query-based revision, for every request that is not
  answered from the cache and whose basename parameter is not empty and holds no
  slash, the file component is undefined, the inference of the type raises a
  \<^verbatim>\<open>TypeError\<close>, and the listener answers with status 500 and the stack trace, not
  with a validation error 400.
\<close>

theorem basename_without_separator:
  "cache (url request) = None \<and> searchGet request ''basename'' = Defined b \<and> b \<noteq> []
     \<and> CHR ''/'' \<notin> set b
   \<longrightarrow> at (split CHR ''/'' b) 1 = Undefined
     \<and> getDataFromRequest_v1 request = Inl (ThrowError ''TypeError'')
     \<and> fetchListener_v1 cache fetch request
        = (\<lparr> status = 500, statusText = [], headerFields = [],
              body = Stack (ThrowError ''TypeError'') \<rparr>, [])"
proof (intro impI conjI)
  assume a: "cache (url request) = None \<and> searchGet request ''basename'' = Defined b \<and> b \<noteq> []
     \<and> CHR ''/'' \<notin> set b"
  then have sp: "split CHR ''/'' b = [b]" by (simp add: split_no_sep)
  then show u: "at (split CHR ''/'' b) 1 = Undefined" by (simp add: at_def)
  show d: "getDataFromRequest_v1 request = Inl (ThrowError ''TypeError'')"
    using a u unfolding getDataFromRequest_v1_def Let_def by simp
  show "fetchListener_v1 cache fetch request
        = (\<lparr> status = 500, statusText = [], headerFields = [],
              body = Stack (ThrowError ''TypeError'') \<rparr>, [])"
    using a d by (simp add: fetchListener_v1_def handleRequest_v1_def thenE_def)
qed

theorem basename_without_separator_witness:
  "Map.empty (url (queryRequest ''style.css'')) = (None :: response option)
   \<and> searchGet (queryRequest ''style.css'') ''basename'' = Defined ''style.css''
   \<and> ''style.css'' \<noteq> [] \<and> CHR ''/'' \<notin> set ''style.css''
   \<and> at (split CHR ''/'' ''style.css'') 1 = Undefined
   \<and> getDataFromRequest_v1 (queryRequest ''style.css'') = Inl (ThrowError ''TypeError'')
   \<and> status (fst (fetchListener_v1 Map.empty
         (github (answer 200 (JArray [releaseOf ''2.0'' [zipAsset]])) (answer 404 JNull))
         (queryRequest ''style.css''))) = 500"
proof -
  have b: "searchGet (queryRequest ''style.css'') ''basename'' = Defined ''style.css''"
    by (simp add: searchGet_def queryRequest_def)
  have c: "''style.css'' \<noteq> []" "CHR ''/'' \<notin> set ''style.css''" by simp_all
  from basename_without_separator [of Map.empty "queryRequest ''style.css''" "''style.css''"
      "github (answer 200 (JArray [releaseOf ''2.0'' [zipAsset]])) (answer 404 JNull)"] b c
  have "at (split CHR ''/'' ''style.css'') 1 = Undefined
     \<and> getDataFromRequest_v1 (queryRequest ''style.css'') = Inl (ThrowError ''TypeError'')
     \<and> fetchListener_v1 Map.empty
          (github (answer 200 (JArray [releaseOf ''2.0'' [zipAsset]])) (answer 404 JNull))
          (queryRequest ''style.css'')
        = (\<lparr> status = 500, statusText = [], headerFields = [],
              body = Stack (ThrowError ''TypeError'') \<rparr>, [])"
    by simp
  with b c show ?thesis by simp
qed

section \<open>Properties of the release resolver and of the responses\<close>

text \<open>The definitions that the evaluation of a request unfolds.\<close>

lemmas worker_defs =
  pathRequest_def versionRequest_def queryRequest_def releaseOf_def zipAsset_def answer_def
  github_def gitHubRequest_def json_def thenE_def noReleases_def searchGet_def searchHas_def
  orElse_def at_def header_def orEmpty_def fromNullable_def redirect_def substring_def
  lastIndexOf_def Let_def getStatusText_def getResponse_def getErrorResponse_def
  getDataFromRequest_def getPayload_def getLatestRelease_def getRelease_def resolveReleases_def
  handleRequest_def fetchListener_def
  getDataFromRequest_v2_def getPayload_v2_def resolveInline_def handleRequest_v2_def
  fetchListener_v2_def
  getDataFromRequest_v1_def getPayload_v1_def handleRequest_v1_def fetchListener_v1_def

subsection \<open>The scan of the releases\<close>

text \<open>
  The loop of \<^verbatim>\<open>getLatestRelease\<close> stops at the first release whose list of assets is
  not empty; over releases that all have an empty list it runs to the end and
  leaves the last of them in its variable.
\<close>

lemma scanReleases_first:
  assumes "\<forall>r\<in>set before. getProp r ''assets'' = Inr (JArray [])"
    and "getProp x ''assets'' = Inr (JArray (a # as))"
  shows "scanReleases r0 (before @ x # after) = Inr x"
  using assms by (induction before arbitrary: r0) (simp_all add: thenE_def)

lemma scanReleases_none:
  assumes "\<forall>r\<in>set rs. getProp r ''assets'' = Inr (JArray [])"
  shows "scanReleases r0 rs = Inr (if rs = [] then r0 else last rs)"
  using assms by (induction rs arbitrary: r0) (simp_all add: thenE_def)

subsection \<open>Releases without assets\<close>

text \<open>
  Claim C1 does not hold of \<^verbatim>\<open>getLatestRelease\<close>. Take the request
  \<^verbatim>\<open>/plugins/acme/widget\<close> and a list of two releases, \<^verbatim>\<open>2.0\<close> and \<^verbatim>\<open>1.9\<close>, neither with
  an asset. The loop ends without a \<^verbatim>\<open>break\<close> and leaves the last release in the
  variable \<^verbatim>\<open>release\<close>, so the test \<^verbatim>\<open>!release\<close> is false and the release \<^verbatim>\<open>1.9\<close>
  is returned where the claim expects the error; the file is then fetched at that
  tag, \<^verbatim>\<open>assets[0]\<close> is undefined in \<^verbatim>\<open>getPayload\<close>, and the listener answers 500.
  The earlier revision of \<^verbatim>\<open>handleRequest\<close> answers the same input with 404 and the
  message \<^verbatim>\<open>No release asset found!\<close>.
\<close>

theorem getLatestRelease_without_assets:
  "getLatestRelease
       (github (answer 200 (JArray [releaseOf ''2.0'' [], releaseOf ''1.9'' []])) (answer 404 JNull))
       (getDataFromRequest pathRequest)
     = Inr (releaseOf ''1.9'' [])
   \<and> fetchListener Map.empty
       (github (answer 200 (JArray [releaseOf ''2.0'' [], releaseOf ''1.9'' []])) (answer 404 JNull))
       pathRequest
     = (\<lparr> status = 500, statusText = [], headerFields = [],
           body = Stack (ThrowError ''TypeError'') \<rparr>, [])
   \<and> fetchListener_v2 Map.empty
       (github (answer 200 (JArray [releaseOf ''2.0'' [], releaseOf ''1.9'' []])) (answer 404 JNull))
       pathRequest
     = (getResponse (JString ''No release asset found!'') 404, [])"
  by (simp add: worker_defs)

subsection \<open>Errors of the API\<close>

text \<open>
  Claim C2 does not hold of the current revision. Take the request
  \<^verbatim>\<open>/plugins/acme/widget\<close> and let the API answer the list of releases with status
  403 and the body \<^verbatim>\<open>{"message": "API rate limit exceeded"}\<close>. \<^verbatim>\<open>getLatestRelease\<close>
  throws the body, and the \<^verbatim>\<open>catch\<close> clause of \<^verbatim>\<open>handleRequest\<close> answers with the
  fixed status 404 and the message of the body: the status 403 is lost. The earlier
  revision of \<^verbatim>\<open>handleRequest\<close> answers the same input with the status 403 and the
  body as it came.
\<close>

theorem upstream_status_not_preserved:
  "fetchListener Map.empty
       (github (answer 403 (JObject [(''message'', JString ''API rate limit exceeded'')]))
          (answer 404 JNull))
       pathRequest
     = (getErrorResponse (JString ''API rate limit exceeded'') 404, [])
   \<and> status (fst (fetchListener Map.empty
       (github (answer 403 (JObject [(''message'', JString ''API rate limit exceeded'')]))
          (answer 404 JNull))
       pathRequest)) = 404
   \<and> fetchListener_v2 Map.empty
       (github (answer 403 (JObject [(''message'', JString ''API rate limit exceeded'')]))
          (answer 404 JNull))
       pathRequest
     = (getResponse (JObject [(''message'', JString ''API rate limit exceeded'')]) 403, [])"
  by (simp add: worker_defs)

subsection \<open>A repository without releases\<close>

text \<open>
  Claim C3 holds of no revision as to the body. Take a repository whose list of
  releases is the empty array, answered with status 200. The current revision
  throws the string \<^verbatim>\<open>No releases available!\<close> and reads \<^verbatim>\<open>e.message\<close> of it, which
  is undefined, so the body is \<^verbatim>\<open>{"status": "error"}\<close> without a message. The two
  earlier revisions pass the string to \<^verbatim>\<open>getResponse\<close>, so their body is the bare
  JSON string. The status is 404 in the three of them.
\<close>

theorem no_releases_response:
  "fetchListener Map.empty (github (answer 200 (JArray [])) (answer 404 JNull)) pathRequest
     = (\<lparr> status = 404, statusText = ''Not Found'',
           headerFields = [(''Content-Type'', ''application/json'')],
           body = JsonText (JObject [(''status'', JString ''error'')]) \<rparr>, [])
   \<and> body (fst (fetchListener Map.empty (github (answer 200 (JArray [])) (answer 404 JNull))
         pathRequest))
     \<noteq> JsonText (JObject [(''status'', JString ''error''),
                            (''message'', JString ''No releases available!'')])
   \<and> fetchListener_v2 Map.empty (github (answer 200 (JArray [])) (answer 404 JNull)) pathRequest
     = (\<lparr> status = 404, statusText = ''Not Found'',
           headerFields = [(''Content-Type'', ''application/json'')],
           body = JsonText (JString ''No releases available!'') \<rparr>, [])
   \<and> fetchListener_v1 Map.empty (github (answer 200 (JArray [])) (answer 404 JNull))
         (queryRequest ''widget/widget.php'')
     = (\<lparr> status = 404, statusText = ''Not Found'',
           headerFields = [(''Content-Type'', ''application/json'')],
           body = JsonText (JString ''No releases available!'') \<rparr>, [])"
  by (simp add: worker_defs)

subsection \<open>The header of the cache\<close>

text \<open>
  Claim C8 does not hold as to the value of the header. Take the request
  \<^verbatim>\<open>/plugins/acme/widget\<close> of a repository whose latest release \<^verbatim>\<open>2.0\<close> has an asset.
  The response has status 200 and the header \<^verbatim>\<open>Content-Type: application/json\<close>, and
  it is handed to \<^verbatim>\<open>event.waitUntil\<close> for a write to the cache under the URL of the
  request; but the value of its header \<^verbatim>\<open>Cache-Control\<close> is the literal \<^verbatim>\<open>s=maxage=10\<close>,
  not the directive \<^verbatim>\<open>s-maxage=10\<close>.
\<close>

theorem cache_control_header:
  "status (fst (fetchListener Map.empty
       (github (answer 200 (JArray [releaseOf ''2.0'' [zipAsset]])) (answer 404 JNull))
       pathRequest)) = 200
   \<and> headerFields (fst (fetchListener Map.empty
       (github (answer 200 (JArray [releaseOf ''2.0'' [zipAsset]])) (answer 404 JNull))
       pathRequest))
     = [(''Content-Type'', ''application/json''), (''Cache-Control'', ''s=maxage=10'')]
   \<and> map_of (headerFields (fst (fetchListener Map.empty
       (github (answer 200 (JArray [releaseOf ''2.0'' [zipAsset]])) (answer 404 JNull))
       pathRequest))) ''Cache-Control'' \<noteq> Some ''s-maxage=10''
   \<and> snd (fetchListener Map.empty
       (github (answer 200 (JArray [releaseOf ''2.0'' [zipAsset]])) (answer 404 JNull))
       pathRequest)
     = [(url pathRequest, fst (fetchListener Map.empty
       (github (answer 200 (JArray [releaseOf ''2.0'' [zipAsset]])) (answer 404 JNull))
       pathRequest))]"
  by (simp add: worker_defs)

subsection \<open>A request with a version\<close>

text \<open>
  Claim C4, as stated, fails where the lookup of the latest release fails, which
  \<^verbatim>\<open>handleRequest\<close> makes first for a request with a version too. With the list of
  releases answered 403, the request for the version \<^verbatim>\<open>1.0\<close> is answered 404 with the
  message of that answer, whether the tag \<^verbatim>\<open>1.0\<close> is answered with a release that has
  an asset or is not found: the release tagged \<^verbatim>\<open>1.0\<close> is not fetched. And with the
  list answered 403 and the body \<^verbatim>\<open>null\<close>, the \<^verbatim>\<open>catch\<close> clause raises on
  \<^verbatim>\<open>e.message\<close>, so the request is answered 500, not 404, although the release
  tagged \<^verbatim>\<open>1.0\<close> has an empty list of assets.
\<close>

theorem version_request_resolution_counterexample:
  "version (getDataFromRequest versionRequest) = Defined ''1.0''
   \<and> fetchListener Map.empty
       (github (answer 403 (JObject [(''message'', JString ''API rate limit exceeded'')]))
          (answer 200 (releaseOf ''1.0'' [zipAsset])))
       versionRequest
     = (getErrorResponse (JString ''API rate limit exceeded'') 404, [])
   \<and> fetchListener Map.empty
       (github (answer 403 (JObject [(''message'', JString ''API rate limit exceeded'')]))
          (answer 404 JNull))
       versionRequest
     = (getErrorResponse (JString ''API rate limit exceeded'') 404, [])
   \<and> getProp (releaseOf ''1.0'' []) ''assets'' = Inr (JArray [])
   \<and> fetchListener Map.empty (github (answer 403 JNull) (answer 200 (releaseOf ''1.0'' [])))
       versionRequest
     = (\<lparr> status = 500, statusText = [], headerFields = [],
           body = Stack (ThrowError ''TypeError'') \<rparr>, [])"
  by (simp add: worker_defs)

text \<open>
  Claim C4, amended. Take a request of the current revision that is not answered
  from the cache, whose entity type is valid and whose path names the version
  \<open>v\<close>, and let the lookup of the latest release, which comes first, succeed. Let
  \<open>tagged\<close> be the answer to
  \<^verbatim>\<open>https://api.github.com/repos/{vendor}/{package}/releases/tags/{v}\<close>. Then the
  resolver fetches exactly the release tagged \<open>v\<close>:
  \<^item> whenever it returns, the release it returns is the body of \<open>tagged\<close>, received
    with status 200, beside the latest release;
  \<^item> if \<open>tagged\<close> has status 200 and its body is a release with a non-empty list of
    assets, the resolver returns that release, and the request goes on with it:
    the file is fetched at the tag name of that release, a file that is not found
    gives status 404 with the path of the file, and a file that is found gives,
    unless a download is asked for, status 200 with the payload built from that
    release, handed to the cache under the URL of the request;
  \<^item> if \<open>tagged\<close> has status 200 and its body is a release with an empty list of
    assets, \<^verbatim>\<open>getRelease\<close> throws, and the request is answered with status 404 and no
    write to the cache.
\<close>

theorem version_request_resolution:
  assumes miss: "cache (url request) = None"
    and d: "d = getDataFromRequest request"
    and ty: "type d = Defined ''theme'' \<or> type d = Defined ''plugin''"
    and v: "version d = Defined v"
    and latest: "getLatestRelease fetch d = Inr latest"
    and tagged: "tagged = fetch (''https://api.github.com/repos/'' @ tmpl (vendor d) @ ''/''
                   @ tmpl (package d) @ ''/releases/tags/'' @ v)"
  shows "(\<forall>d'. resolveReleases fetch d = Inr d'
            \<longrightarrow> fetchedStatus tagged = 200 \<and> fetchedJson tagged = Some (release d')
              \<and> latestRelease d' = latest)
       \<and> (\<forall>rel a as. fetchedStatus tagged = 200 \<and> fetchedJson tagged = Some rel
               \<and> getProp rel ''assets'' = Inr (JArray (a # as))
            \<longrightarrow> resolveReleases fetch d = Inr (d\<lparr>latestRelease := latest, release := rel\<rparr>)
              \<and> (\<forall>tag filePath. getProp rel ''tag_name'' = Inr tag
                     \<and> filePath = ''https://raw.githubusercontent.com/'' @ tmpl (vendor d) @ ''/''
                           @ tmpl (package d) @ ''/'' @ tmplJ tag @ ''/'' @ file d
                   \<longrightarrow> (fetchedStatus (fetch filePath) \<noteq> 200
                        \<longrightarrow> fetchListener cache fetch request
                            = (getResponse (JString (''Unable to fetch '' @ tmpl (type d)
                                  @ '' file: '' @ filePath)) 404, []))
                     \<and> (\<forall>payload. fetchedStatus (fetch filePath) = 200 \<and> \<not> isDownload d
                           \<and> getPayload (d\<lparr>latestRelease := latest, release := rel,
                                 fileHeaders := getFileHeaders (fetchedText (fetch filePath))\<rparr>)
                               = Inr payload
                        \<longrightarrow> status (fst (fetchListener cache fetch request)) = 200
                          \<and> body (fst (fetchListener cache fetch request))
                              = JsonText (stringify payload)
                          \<and> snd (fetchListener cache fetch request)
                              = [(url request, fst (fetchListener cache fetch request))])))
       \<and> (\<forall>rel. fetchedStatus tagged = 200 \<and> fetchedJson tagged = Some rel
               \<and> getProp rel ''assets'' = Inr (JArray [])
            \<longrightarrow> getRelease fetch (d\<lparr>latestRelease := latest\<rparr>)
                  = Inl (ThrowValue (JString (''Release '' @ v @ '' doesn'' @ [CHR 0x27]
                           @ ''t have a release asset!'')))
              \<and> status (fst (fetchListener cache fetch request)) = 404
              \<and> snd (fetchListener cache fetch request) = [])"
proof -
  have ne: "v \<noteq> []" using v d version_not_empty by simp
  have "truthyS (version (getDataFromRequest request))" using v ne d by simp
  then have vp: "truthyS (vendor d)" "truthyS (package d)"
    using version_needs_package [of request] d by simp_all
  have rr: "resolveReleases fetch d
      = thenE (getRelease fetch (d\<lparr>latestRelease := latest\<rparr>))
          (\<lambda>r. Inr (d\<lparr>latestRelease := latest, release := r\<rparr>))"
    using latest v ne by (simp add: resolveReleases_def thenE_def Let_def)
  have first: "fetchedStatus tagged = 200 \<and> fetchedJson tagged = Some (release d')
      \<and> latestRelease d' = latest"
    if "resolveReleases fetch d = Inr d'" for d'
  proof -
    from that rr
    have g: "getRelease fetch (d\<lparr>latestRelease := latest\<rparr>) = Inr (release d')"
      and l: "latestRelease d' = latest"
      by (auto simp: thenE_def split: sum.splits)
    from g have "fetchedStatus tagged = 200 \<and> fetchedJson tagged = Some (release d')"
      using v tagged
      by (simp add: getRelease_def gitHubRequest_def json_def thenE_def Let_def
          split: option.splits if_splits sum.splits)
    with l show ?thesis by simp
  qed
  have positive: "resolveReleases fetch d = Inr (d\<lparr>latestRelease := latest, release := rel\<rparr>)"
    if a: "fetchedStatus tagged = 200 \<and> fetchedJson tagged = Some rel
               \<and> getProp rel ''assets'' = Inr (JArray (a # as))" for rel a as
  proof -
    have "getRelease fetch (d\<lparr>latestRelease := latest\<rparr>) = Inr rel"
      using a v tagged by (simp add: getRelease_def gitHubRequest_def json_def thenE_def Let_def)
    with rr show ?thesis by (simp add: thenE_def)
  qed
  have handled: "handleRequest cache fetch request
      = (case resolveReleases fetch d of
           Inl e \<Rightarrow> thenE (messageOf e) (\<lambda>m. Inr (getErrorResponse m 404, []))
         | Inr d2 \<Rightarrow>
             thenE (getProp (release d2) ''tag_name'') (\<lambda>tag.
               let filePath = ''https://raw.githubusercontent.com/'' @ tmpl (vendor d2) @ ''/''
                     @ tmpl (package d2) @ ''/'' @ tmplJ tag @ ''/'' @ file d2;
                   response = gitHubRequest fetch filePath
               in if fetchedStatus response \<noteq> 200
                  then Inr (getResponse (JString
                         (''Unable to fetch '' @ tmpl (type d2) @ '' file: '' @ filePath)) 404, [])
                  else
                    (let d3 = d2\<lparr>fileHeaders := getFileHeaders (fetchedText response)\<rparr>
                     in thenE (getPayload d3) (\<lambda>payload.
                          if isDownload d3
                          then thenE (thenE (getProp payload ''download'')
                                        (\<lambda>target. redirect target 301))
                                 (\<lambda>r. Inr (r, []))
                          else
                            (let r = getResponse payload 200;
                                 r = r\<lparr>headerFields :=
                                        headerFields r @ [(''Cache-Control'', ''s=maxage=10'')]\<rparr>
                             in Inr (r, [(url request, r)]))))))"
    unfolding handleRequest_def using miss ty vp d [symmetric]
    by (auto simp: Let_def)
  have unable: "fetchListener cache fetch request
        = (getResponse (JString (''Unable to fetch '' @ tmpl (type d) @ '' file: '' @ filePath))
             404, [])"
    if a: "fetchedStatus tagged = 200 \<and> fetchedJson tagged = Some rel
               \<and> getProp rel ''assets'' = Inr (JArray (a # as))"
      and t: "getProp rel ''tag_name'' = Inr tag"
      and p: "filePath = ''https://raw.githubusercontent.com/'' @ tmpl (vendor d) @ ''/''
                           @ tmpl (package d) @ ''/'' @ tmplJ tag @ ''/'' @ file d"
      and s: "fetchedStatus (fetch filePath) \<noteq> 200" for rel a as tag filePath
    unfolding fetchListener_def handled positive [OF a]
    using t p s by (simp add: thenE_def Let_def gitHubRequest_def)
  have success: "status (fst (fetchListener cache fetch request)) = 200
        \<and> body (fst (fetchListener cache fetch request)) = JsonText (stringify payload)
        \<and> snd (fetchListener cache fetch request)
            = [(url request, fst (fetchListener cache fetch request))]"
    if a: "fetchedStatus tagged = 200 \<and> fetchedJson tagged = Some rel
               \<and> getProp rel ''assets'' = Inr (JArray (a # as))"
      and t: "getProp rel ''tag_name'' = Inr tag"
      and p: "filePath = ''https://raw.githubusercontent.com/'' @ tmpl (vendor d) @ ''/''
                           @ tmpl (package d) @ ''/'' @ tmplJ tag @ ''/'' @ file d"
      and s: "fetchedStatus (fetch filePath) = 200 \<and> \<not> isDownload d
                \<and> getPayload (d\<lparr>latestRelease := latest, release := rel,
                      fileHeaders := getFileHeaders (fetchedText (fetch filePath))\<rparr>)
                    = Inr payload" for rel a as tag filePath payload
    unfolding fetchListener_def handled positive [OF a]
    using t p s by (simp add: thenE_def Let_def gitHubRequest_def getResponse_def)
  have second: "getRelease fetch (d\<lparr>latestRelease := latest\<rparr>)
                  = Inl (ThrowValue (JString (''Release '' @ v @ '' doesn'' @ [CHR 0x27]
                           @ ''t have a release asset!'')))
              \<and> status (fst (fetchListener cache fetch request)) = 404
              \<and> snd (fetchListener cache fetch request) = []"
    if a: "fetchedStatus tagged = 200 \<and> fetchedJson tagged = Some rel
               \<and> getProp rel ''assets'' = Inr (JArray [])" for rel
  proof -
    have g: "getRelease fetch (d\<lparr>latestRelease := latest\<rparr>)
                  = Inl (ThrowValue (JString (''Release '' @ v @ '' doesn'' @ [CHR 0x27]
                           @ ''t have a release asset!'')))"
      using a v tagged by (simp add: getRelease_def gitHubRequest_def json_def thenE_def Let_def)
    have "fetchListener cache fetch request = (getErrorResponse JUndefined 404, [])"
      unfolding fetchListener_def handled rr g by (simp add: thenE_def)
    then show ?thesis using g by (simp add: getErrorResponse_def getResponse_def)
  qed
  show ?thesis
  proof (intro conjI allI impI)
    fix d' assume "resolveReleases fetch d = Inr d'"
    from first [OF this] show "fetchedStatus tagged = 200" "fetchedJson tagged = Some (release d')"
      "latestRelease d' = latest" by simp_all
  next
    fix rel a as
    assume a: "fetchedStatus tagged = 200 \<and> fetchedJson tagged = Some rel
               \<and> getProp rel ''assets'' = Inr (JArray (a # as))"
    then show "resolveReleases fetch d = Inr (d\<lparr>latestRelease := latest, release := rel\<rparr>)"
      by (rule positive)
    fix tag filePath
    assume t: "getProp rel ''tag_name'' = Inr tag
                     \<and> filePath = ''https://raw.githubusercontent.com/'' @ tmpl (vendor d) @ ''/''
                           @ tmpl (package d) @ ''/'' @ tmplJ tag @ ''/'' @ file d"
    { assume n: "fetchedStatus (fetch filePath) \<noteq> 200"
      show "fetchListener cache fetch request
                            = (getResponse (JString (''Unable to fetch '' @ tmpl (type d)
                                  @ '' file: '' @ filePath)) 404, [])"
        by (rule unable [OF a conjunct1 [OF t] conjunct2 [OF t] n]) }
    fix payload
    assume s: "fetchedStatus (fetch filePath) = 200 \<and> \<not> isDownload d
                           \<and> getPayload (d\<lparr>latestRelease := latest, release := rel,
                                 fileHeaders := getFileHeaders (fetchedText (fetch filePath))\<rparr>)
                               = Inr payload"
    from success [OF a conjunct1 [OF t] conjunct2 [OF t] s]
    show "status (fst (fetchListener cache fetch request)) = 200"
      "body (fst (fetchListener cache fetch request)) = JsonText (stringify payload)"
      "snd (fetchListener cache fetch request)
                              = [(url request, fst (fetchListener cache fetch request))]"
      by simp_all
  next
    fix rel
    assume a: "fetchedStatus tagged = 200 \<and> fetchedJson tagged = Some rel
               \<and> getProp rel ''assets'' = Inr (JArray [])"
    from second [OF a]
    show "getRelease fetch (d\<lparr>latestRelease := latest\<rparr>)
                  = Inl (ThrowValue (JString (''Release '' @ v @ '' doesn'' @ [CHR 0x27]
                           @ ''t have a release asset!'')))"
      "status (fst (fetchListener cache fetch request)) = 404"
      "snd (fetchListener cache fetch request) = []" by simp_all
  qed
qed

theorem version_request_resolution_witness:
  "Map.empty (url versionRequest) = (None :: response option)
   \<and> type (getDataFromRequest versionRequest) = Defined ''plugin''
   \<and> version (getDataFromRequest versionRequest) = Defined ''1.0''
   \<and> getLatestRelease (github (answer 200 (JArray [releaseOf ''2.0'' [zipAsset]]))
                               (answer 200 (releaseOf ''1.0'' [])))
         (getDataFromRequest versionRequest) = Inr (releaseOf ''2.0'' [zipAsset])
   \<and> getProp (releaseOf ''1.0'' []) ''assets'' = Inr (JArray [])
   \<and> status (fst (fetchListener Map.empty
         (github (answer 200 (JArray [releaseOf ''2.0'' [zipAsset]]))
                 (answer 200 (releaseOf ''1.0'' []))) versionRequest)) = 404
   \<and> getProp (releaseOf ''1.0'' [oldZipAsset]) ''assets'' = Inr (JArray [oldZipAsset])
   \<and> resolveReleases
         (github (answer 200 (JArray [releaseOf ''2.0'' [zipAsset]]))
                 (answer 200 (releaseOf ''1.0'' [oldZipAsset])))
         (getDataFromRequest versionRequest)
       = Inr ((getDataFromRequest versionRequest)
               \<lparr>latestRelease := releaseOf ''2.0'' [zipAsset],
                release := releaseOf ''1.0'' [oldZipAsset]\<rparr>)
   \<and> status (fst (fetchListener Map.empty
         (github (answer 200 (JArray [releaseOf ''2.0'' [zipAsset]]))
                 (answer 200 (releaseOf ''1.0'' [oldZipAsset]))) versionRequest)) = 200
   \<and> body (fst (fetchListener Map.empty
         (github (answer 200 (JArray [releaseOf ''2.0'' [zipAsset]]))
                 (answer 200 (releaseOf ''1.0'' [oldZipAsset]))) versionRequest))
       = JsonText (JObject
          [(''name'', JString ''Widget''), (''type'', JString ''plugin''),
           (''version'', JObject [(''current'', JString ''2.0''), (''latest'', JString ''2.0'')]),
           (''description'', JString []),
           (''author'', JObject [(''name'', JString []), (''url'', JString [])]),
           (''updated'', JString []),
           (''requires'', JObject [(''wp'', JString []), (''php'', JString [])]),
           (''tested'', JObject [(''wp'', JString [])]),
           (''url'', JString []),
           (''download'', JString ''https://github.com/acme/widget/widget-1.0.zip''),
           (''slug'', JString ''widget''),
           (''basename'', JString ''widget/widget.php'')])"
proof -
  let ?w = "github (answer 200 (JArray [releaseOf ''2.0'' [zipAsset]]))
                 (answer 200 (releaseOf ''1.0'' []))"
  let ?w2 = "github (answer 200 (JArray [releaseOf ''2.0'' [zipAsset]]))
                 (answer 200 (releaseOf ''1.0'' [oldZipAsset]))"
  let ?d = "getDataFromRequest versionRequest"
  let ?p = "JObject
          [(''name'', JString ''Widget''), (''type'', JString ''plugin''),
           (''version'', JObject [(''current'', JString ''2.0''), (''latest'', JString ''2.0'')]),
           (''description'', JString []),
           (''author'', JObject [(''name'', JString []), (''url'', JString [])]),
           (''updated'', JString []),
           (''requires'', JObject [(''wp'', JString []), (''php'', JString [])]),
           (''tested'', JObject [(''wp'', JString [])]),
           (''url'', JString []),
           (''download'', JString ''https://github.com/acme/widget/widget-1.0.zip''),
           (''slug'', JString ''widget''),
           (''basename'', JString ''widget/widget.php'')]"
  have d: "vendor ?d = Defined ''acme''" "package ?d = Defined ''widget''"
    "type ?d = Defined ''plugin''" "version ?d = Defined ''1.0''"
    "file ?d = ''widget.php''" "isDownload ?d = False" "slug ?d = Defined ''widget''"
    "basename ?d = ''widget/widget.php''"
    by (simp_all add: getDataFromRequest_def versionRequest_def searchGet_def orElse_def Let_def)
  have l: "getLatestRelease ?w ?d = Inr (releaseOf ''2.0'' [zipAsset])"
    by (simp add: getLatestRelease_def d github_def answer_def gitHubRequest_def json_def
        thenE_def noReleases_def releaseOf_def zipAsset_def)
  have l2: "getLatestRelease ?w2 ?d = Inr (releaseOf ''2.0'' [zipAsset])"
    by (simp add: getLatestRelease_def d github_def answer_def gitHubRequest_def json_def
        thenE_def noReleases_def releaseOf_def zipAsset_def)
  have u: "''https://api.github.com/repos/'' @ tmpl (vendor ?d) @ ''/'' @ tmpl (package ?d)
      @ ''/releases/tags/'' @ ''1.0'' = ''https://api.github.com/repos/acme/widget/releases/tags/1.0''"
    by (simp add: d)
  have t: "?w (''https://api.github.com/repos/'' @ tmpl (vendor ?d) @ ''/'' @ tmpl (package ?d)
      @ ''/releases/tags/'' @ ''1.0'') = answer 200 (releaseOf ''1.0'' [])"
    unfolding u by (simp add: github_def)
  have t2: "?w2 (''https://api.github.com/repos/'' @ tmpl (vendor ?d) @ ''/'' @ tmpl (package ?d)
      @ ''/releases/tags/'' @ ''1.0'') = answer 200 (releaseOf ''1.0'' [oldZipAsset])"
    unfolding u by (simp add: github_def)
  have a: "getProp (releaseOf ''1.0'' []) ''assets'' = Inr (JArray [])"
    by (simp add: releaseOf_def)
  have a2: "getProp (releaseOf ''1.0'' [oldZipAsset]) ''assets'' = Inr (JArray (oldZipAsset # []))"
    by (simp add: releaseOf_def)
  have tg: "getProp (releaseOf ''1.0'' [oldZipAsset]) ''tag_name'' = Inr (JString ''1.0'')"
    by (simp add: releaseOf_def)
  have m: "Map.empty (url versionRequest) = (None :: response option)" by simp
  have ty: "type ?d = Defined ''theme'' \<or> type ?d = Defined ''plugin''" using d(3) by simp
  have st: "fetchedStatus (answer 200 (releaseOf ''1.0'' [])) = 200
      \<and> fetchedJson (answer 200 (releaseOf ''1.0'' [])) = Some (releaseOf ''1.0'' [])
      \<and> getProp (releaseOf ''1.0'' []) ''assets'' = Inr (JArray [])"
    using a by (simp add: answer_def)
  have st2: "fetchedStatus (answer 200 (releaseOf ''1.0'' [oldZipAsset])) = 200
      \<and> fetchedJson (answer 200 (releaseOf ''1.0'' [oldZipAsset]))
          = Some (releaseOf ''1.0'' [oldZipAsset])
      \<and> getProp (releaseOf ''1.0'' [oldZipAsset]) ''assets'' = Inr (JArray (oldZipAsset # []))"
    using a2 by (simp add: answer_def)
  note T = version_request_resolution [OF m refl ty d(4) l refl, unfolded t]
  from T st have s404: "status (fst (fetchListener Map.empty ?w versionRequest)) = 404"
    by blast
  note T2 = version_request_resolution [OF m refl ty d(4) l2 refl, unfolded t2]
  from T2 st2 have r2: "resolveReleases ?w2 ?d
      = Inr (?d\<lparr>latestRelease := releaseOf ''2.0'' [zipAsset],
                release := releaseOf ''1.0'' [oldZipAsset]\<rparr>)"
    by blast
  have fp: "''https://raw.githubusercontent.com/acme/widget/1.0/widget.php''
      = ''https://raw.githubusercontent.com/'' @ tmpl (vendor ?d) @ ''/''
          @ tmpl (package ?d) @ ''/'' @ tmplJ (JString ''1.0'') @ ''/'' @ file ?d"
    by (simp add: d)
  have ff: "?w2 ''https://raw.githubusercontent.com/acme/widget/1.0/widget.php''
      = \<lparr> fetchedStatus = 200,
          fetchedText = ''Plugin Name: Widget'' @ [CHR 0x0A] @ ''Version: 2.0'',
          fetchedJson = None \<rparr>"
    by (simp add: github_def)
  have gp: "getPayload (?d\<lparr>latestRelease := releaseOf ''2.0'' [zipAsset],
        release := releaseOf ''1.0'' [oldZipAsset],
        fileHeaders := getFileHeaders (fetchedText
          (?w2 ''https://raw.githubusercontent.com/acme/widget/1.0/widget.php''))\<rparr>) = Inr ?p"
    unfolding ff
    by (simp add: getPayload_def d releaseOf_def zipAsset_def oldZipAsset_def thenE_def
        header_def orEmpty_def fromNullable_def getFileHeaders_def headers_def trim_def
        whiteSpace_def lineTerminator_def)
  have ok: "fetchedStatus (?w2 ''https://raw.githubusercontent.com/acme/widget/1.0/widget.php'') = 200
      \<and> \<not> isDownload ?d
      \<and> getPayload (?d\<lparr>latestRelease := releaseOf ''2.0'' [zipAsset],
            release := releaseOf ''1.0'' [oldZipAsset],
            fileHeaders := getFileHeaders (fetchedText
              (?w2 ''https://raw.githubusercontent.com/acme/widget/1.0/widget.php''))\<rparr>) = Inr ?p"
    using gp d(6) by (simp add: ff)
  from T2 st2 tg fp ok
  have "status (fst (fetchListener Map.empty ?w2 versionRequest)) = 200
      \<and> body (fst (fetchListener Map.empty ?w2 versionRequest)) = JsonText (stringify ?p)"
    by blast
  then have s200: "status (fst (fetchListener Map.empty ?w2 versionRequest)) = 200"
    and b200: "body (fst (fetchListener Map.empty ?w2 versionRequest)) = JsonText ?p"
    by simp_all
  from s404 r2 s200 b200 l a a2 d show ?thesis by simp
qed

end
